theory Spec2Isabelle
  imports Complex_Main
begin

section \<open>Numbers\<close>

text \<open>
  The entries of a numpy array of dtype float64 are modelled as a real number or one of
  the three special values of IEEE arithmetic.  The sums, products and quotients of the
  matrix operations are taken as exact, and overflow and the sign of zero are not
  modelled; a zero denominator counts as \<open>+0.0\<close> (the only denominator of the program is a
  Euclidean norm, which is never \<open>-0.0\<close>).  Rounding is modelled where a Python integer is
  converted to float64 and in the comparison of \<open>np.isclose\<close>.
\<close>

datatype npfloat = Fin real | PInf | NInf | NaN

fun fneg :: "npfloat \<Rightarrow> npfloat" where
  "fneg (Fin a) = Fin (- a)"
| "fneg PInf = NInf"
| "fneg NInf = PInf"
| "fneg NaN = NaN"

fun fadd :: "npfloat \<Rightarrow> npfloat \<Rightarrow> npfloat" where
  "fadd (Fin a) (Fin b) = Fin (a + b)"
| "fadd NaN _ = NaN"
| "fadd _ NaN = NaN"
| "fadd PInf NInf = NaN"
| "fadd NInf PInf = NaN"
| "fadd PInf _ = PInf"
| "fadd _ PInf = PInf"
| "fadd NInf _ = NInf"
| "fadd _ NInf = NInf"

definition fsub :: "npfloat \<Rightarrow> npfloat \<Rightarrow> npfloat" where
  "fsub a b = fadd a (fneg b)"

fun fmul :: "npfloat \<Rightarrow> npfloat \<Rightarrow> npfloat" where
  "fmul (Fin a) (Fin b) = Fin (a * b)"
| "fmul NaN _ = NaN"
| "fmul _ NaN = NaN"
| "fmul (Fin a) y = (if a = 0 then NaN else if 0 < a then y else fneg y)"
| "fmul x (Fin b) = (if b = 0 then NaN else if 0 < b then x else fneg x)"
| "fmul x y = (if x = y then PInf else NInf)"

fun fdiv :: "npfloat \<Rightarrow> npfloat \<Rightarrow> npfloat" where
  "fdiv (Fin a) (Fin b) =
     (if b = 0 then (if a = 0 then NaN else if 0 < a then PInf else NInf)
      else Fin (a / b))"
| "fdiv NaN _ = NaN"
| "fdiv _ NaN = NaN"
| "fdiv (Fin a) _ = Fin 0"
| "fdiv x (Fin b) = (if 0 \<le> b then x else fneg x)"
| "fdiv _ _ = NaN"

fun is_finite :: "npfloat \<Rightarrow> bool" where
  "is_finite (Fin _) = True"
| "is_finite _ = False"

text \<open>Python's \<open>a <= b\<close> on floats: every comparison with NaN is false.\<close>

fun fle :: "npfloat \<Rightarrow> npfloat \<Rightarrow> bool" where
  "fle (Fin a) (Fin b) = (a \<le> b)"
| "fle NaN _ = False"
| "fle _ NaN = False"
| "fle NInf _ = True"
| "fle _ PInf = True"
| "fle _ _ = False"

text \<open>
  Rounding to the nearest float64 number, ties to even: the argument is scaled by the unit
  in the last of the 53 binary digits, rounded to an integer and scaled back.  The
  exponent range is taken as unbounded.
\<close>

definition round_half_even :: "real \<Rightarrow> int" where
  "round_half_even s =
     (let f = \<lfloor>s\<rfloor>; d = s - of_int f in
      if d < 1 / 2 then f else if 1 / 2 < d then f + 1 else if even f then f else f + 1)"

definition fl64 :: "real \<Rightarrow> real" where
  "fl64 x =
     (if x = 0 then 0
      else
        let u = 2 powr of_int (\<lfloor>log 2 \<bar>x\<bar>\<rfloor> - 52) in
        of_int (round_half_even (x / u)) * u)"

text \<open>
  The conversion of a Python number to float64, as \<open>np.array\<close> and \<open>np.dot\<close> do it when an
  integer meets floats: an integer beyond \<open>2**53\<close> is rounded, a float is kept.
\<close>

fun to_float64 :: "npfloat \<Rightarrow> npfloat" where
  "to_float64 (Fin a) = Fin (fl64 a)"
| "to_float64 x = x"

section \<open>Errors\<close>

text \<open>
  The exceptions the program raises, by class; the string is the fixed part of the
  message (the formatted argument of an f-string is left out).
\<close>

datatype exn =
    ValueError string
  | TypeError string
  | LinAlgError string
  | ValidationError string
  | IndexError string
  | ImmutabilityError string
  | BackendError string

section \<open>Arrays\<close>

text \<open>
  An \<open>ArrayLike\<close> argument is a number or a (possibly nested) sequence.  \<open>shape_of\<close> is
  the shape \<open>np.asarray(a, dtype=float)\<close> gives it, and \<open>None\<close> when the nesting is
  ragged, where numpy raises a ValueError.
\<close>

datatype array_like = Num npfloat | Seq "array_like list"

fun shape_of :: "array_like \<Rightarrow> nat list option" where
  "shape_of (Num _) = Some []"
| "shape_of (Seq []) = Some [0]"
| "shape_of (Seq (x # xs)) =
     (case shape_of x of
        None \<Rightarrow> None
      | Some s \<Rightarrow>
          if list_all (\<lambda>y. shape_of y = Some s) xs then Some (Suc (length xs) # s)
          else None)"

text \<open>A two-dimensional array is kept as the list of its rows.\<close>

type_synonym mat = "npfloat list list"

fun as_num :: "array_like \<Rightarrow> npfloat option" where
  "as_num (Num v) = Some v"
| "as_num (Seq _) = None"

fun those_list :: "'a option list \<Rightarrow> 'a list option" where
  "those_list [] = Some []"
| "those_list (None # _) = None"
| "those_list (Some x # xs) = (case those_list xs of None \<Rightarrow> None | Some ys \<Rightarrow> Some (x # ys))"

fun as_row :: "array_like \<Rightarrow> npfloat list option" where
  "as_row (Num _) = None"
| "as_row (Seq xs) = those_list (map as_num xs)"

fun as_rows :: "array_like \<Rightarrow> mat option" where
  "as_rows (Num _) = None"
| "as_rows (Seq xs) = those_list (map as_row xs)"

definition of_rows :: "mat \<Rightarrow> array_like" where
  "of_rows m = Seq (map (\<lambda>r. Seq (map Num r)) m)"

text \<open>\<open>np.eye(4)\<close>\<close>

definition eye4 :: mat where
  "eye4 =
    [[Fin 1, Fin 0, Fin 0, Fin 0],
     [Fin 0, Fin 1, Fin 0, Fin 0],
     [Fin 0, Fin 0, Fin 1, Fin 0],
     [Fin 0, Fin 0, Fin 0, Fin 1]]"

section \<open>Transform\<close>

record Transform =
  matrix :: mat

text \<open>
  \<open>Transform.__init__\<close>: no argument gives the identity; otherwise the argument is
  converted with \<open>np.asarray(matrix, dtype=float)\<close> and its shape is compared with
  \<open>(4, 4)\<close> before the model object is built.
\<close>

definition Transform_init :: "array_like option \<Rightarrow> exn + Transform" where
  "Transform_init arg =
     (case arg of
        None \<Rightarrow> Inr \<lparr>matrix = eye4\<rparr>
      | Some a \<Rightarrow>
          (case shape_of a of
             None \<Rightarrow> Inl (ValueError ''setting an array element with a sequence'')
           | Some s \<Rightarrow>
               if s \<noteq> [4, 4] then Inl (ValueError ''Expected 4x4 matrix'')
               else (case as_rows a of
                       Some m \<Rightarrow> Inr \<lparr>matrix = m\<rparr>
                     | None \<Rightarrow> Inl (ValueError ''Expected 4x4 matrix''))))"

definition bind_exn :: "exn + 'a \<Rightarrow> ('a \<Rightarrow> exn + 'b) \<Rightarrow> exn + 'b" where
  "bind_exn r f = (case r of Inl e \<Rightarrow> Inl e | Inr x \<Rightarrow> f x)"

text \<open>\<open>Transform(matrix=m)\<close> for an array \<open>m\<close> the program has just computed.\<close>

definition Transform_of :: "mat \<Rightarrow> exn + Transform" where
  "Transform_of m = Transform_init (Some (of_rows m))"

section \<open>The numpy operations the program calls\<close>

text \<open>
  The shape \<open>(rows, columns)\<close> of a list of rows; \<open>None\<close> when the rows differ in
  length (numpy refuses such a nesting with a ValueError) or when there is no row (the
  empty list is a one-dimensional array).
\<close>

definition shape2 :: "mat \<Rightarrow> (nat \<times> nat) option" where
  "shape2 m =
     (case m of
        [] \<Rightarrow> None
      | r # rs \<Rightarrow>
          if list_all (\<lambda>q. length q = length r) rs then Some (length m, length r)
          else None)"

fun inner :: "npfloat list \<Rightarrow> npfloat list \<Rightarrow> npfloat" where
  "inner (x # xs) (y # ys) = fadd (fmul x y) (inner xs ys)"
| "inner _ _ = Fin 0"

definition column :: "mat \<Rightarrow> nat \<Rightarrow> npfloat list" where
  "column m j = map (\<lambda>r. r ! j) m"

text \<open>
  \<open>np.dot(a, b)\<close> for two-dimensional arrays: entry \<open>(i, j)\<close> is the sum of the products
  of row \<open>i\<close> of \<open>a\<close> and column \<open>j\<close> of \<open>b\<close>; a ValueError when the inner dimensions
  differ.
\<close>

definition np_dot :: "mat \<Rightarrow> mat \<Rightarrow> exn + mat" where
  "np_dot a b =
     (case shape2 a of
        None \<Rightarrow> Inl (ValueError ''setting an array element with a sequence'')
      | Some (r, n) \<Rightarrow>
          (case shape2 b of
             None \<Rightarrow> Inl (ValueError ''setting an array element with a sequence'')
           | Some (n', c) \<Rightarrow>
               if n = n' then Inr (map (\<lambda>row. map (\<lambda>j. inner row (column b j)) [0..<c]) a)
               else Inl (ValueError ''shapes not aligned'')))"

text \<open>\<open>a @ b\<close>: on two-dimensional arrays numpy's matmul is the same matrix product.\<close>

definition np_matmul :: "mat \<Rightarrow> mat \<Rightarrow> exn + mat" where
  "np_matmul a b = np_dot a b"

text \<open>\<open>a.T\<close> of a two-dimensional array.\<close>

definition np_T :: "mat \<Rightarrow> mat" where
  "np_T a = (case a of [] \<Rightarrow> [] | r # _ \<Rightarrow> map (column a) [0..<length r])"

text \<open>\<open>np.diag(v)\<close> of a vector.\<close>

definition np_diag :: "npfloat list \<Rightarrow> mat" where
  "np_diag v =
     map (\<lambda>i. map (\<lambda>j. if i = j then v ! i else Fin 0) [0..<length v]) [0..<length v]"

fun fsqrt :: "npfloat \<Rightarrow> npfloat" where
  "fsqrt (Fin a) = (if a < 0 then NaN else Fin (sqrt a))"
| "fsqrt PInf = PInf"
| "fsqrt NInf = NaN"
| "fsqrt NaN = NaN"

text \<open>\<open>np.linalg.norm(v)\<close> of a vector.\<close>

definition linalg_norm :: "npfloat list \<Rightarrow> npfloat" where
  "linalg_norm v = fsqrt (inner v v)"

text \<open>\<open>np.radians(angle)\<close> of a scalar.\<close>

definition np_radians :: "npfloat \<Rightarrow> npfloat" where
  "np_radians a = fmul a (Fin (pi / 180))"

text \<open>\<open>math.cos\<close> and \<open>math.sin\<close> raise a ValueError on an infinite argument.\<close>

fun math_cos :: "npfloat \<Rightarrow> exn + npfloat" where
  "math_cos (Fin a) = Inr (Fin (cos a))"
| "math_cos NaN = Inr NaN"
| "math_cos _ = Inl (ValueError ''math domain error'')"

fun math_sin :: "npfloat \<Rightarrow> exn + npfloat" where
  "math_sin (Fin a) = Inr (Fin (sin a))"
| "math_sin NaN = Inr NaN"
| "math_sin _ = Inl (ValueError ''math domain error'')"

text \<open>
  \<open>np.isclose\<close> with the defaults of \<open>np.allclose\<close> (\<open>rtol = 1e-05\<close>, \<open>atol = 1e-08\<close>,
  \<open>equal_nan = False\<close>), and \<open>np.allclose\<close> on two arrays of the same shape.  The
  tolerances are the float64 numbers that the literals \<open>1e-05\<close> and \<open>1e-08\<close> denote, and
  \<open>abs(x - y) <= atol + rtol * abs(y)\<close> is evaluated in float64 arithmetic: the difference,
  the product and the sum are rounded.
\<close>

definition rtol :: real where
  "rtol = 5902958103587057 / 2 ^ 69"

definition atol :: real where
  "atol = 3022314549036573 / 2 ^ 78"

fun isclose :: "npfloat \<Rightarrow> npfloat \<Rightarrow> bool" where
  "isclose (Fin a) (Fin b) = (\<bar>fl64 (a - b)\<bar> \<le> fl64 (atol + fl64 (rtol * \<bar>b\<bar>)))"
| "isclose PInf PInf = True"
| "isclose NInf NInf = True"
| "isclose _ _ = False"

definition np_allclose :: "mat \<Rightarrow> mat \<Rightarrow> bool" where
  "np_allclose a b = list_all2 (list_all2 isclose) a b"

section \<open>Coordinate arguments\<close>

text \<open>
  The coordinate and vector arguments of the methods are array-likes of at most two
  dimensions: a Python number, a flat sequence, or a sequence of rows.  Their entries are
  Python numbers, integers or floats; an integer becomes a float64 number where the
  program puts it into a float64 array.
\<close>

datatype coords = Scalar npfloat | Vec "npfloat list" | Rows mat

text \<open>
  \<open>np.atleast_2d(np.array(obj))\<close>.  The empty sequence is a one-dimensional array of
  length 0 and becomes one empty row.
\<close>

fun atleast_2d :: "coords \<Rightarrow> exn + mat" where
  "atleast_2d (Scalar x) = Inr [[x]]"
| "atleast_2d (Vec xs) = Inr [xs]"
| "atleast_2d (Rows []) = Inr [[]]"
| "atleast_2d (Rows (r # rs)) =
     (case shape2 (r # rs) of
        None \<Rightarrow> Inl (ValueError ''setting an array element with a sequence'')
      | Some _ \<Rightarrow> Inr (r # rs))"

fun ndim :: "coords \<Rightarrow> nat" where
  "ndim (Scalar _) = 0"
| "ndim (Vec _) = 1"
| "ndim (Rows []) = 1"
| "ndim (Rows (_ # _)) = 2"

definition default_position :: "npfloat list" where
  "default_position = [Fin 0, Fin 0, Fin 0, Fin 1]"

definition default_scale :: "npfloat list" where
  "default_scale = [Fin 1, Fin 1, Fin 1, Fin 1]"

text \<open>
  \<open>as_vec4(obj, default)\<close>: rows shorter than 4 are filled up from \<open>default\<close>, rows
  longer than 4 are a TypeError.
\<close>

definition as_vec4 :: "coords \<Rightarrow> npfloat list \<Rightarrow> exn + mat" where
  "as_vec4 obj dflt =
     bind_exn (atleast_2d obj) (\<lambda>m.
       case m of
         [] \<Rightarrow> Inr []
       | r # _ \<Rightarrow>
           if length r < 4 then Inr (map (\<lambda>q. q @ drop (length r) dflt) m)
           else if length r > 4 then Inl (TypeError ''Array shape cannot be converted to vec4'')
           else Inr m)"

text \<open>\<open>a[0, :3]\<close> of a two-dimensional array; numpy raises an IndexError without a row.\<close>

definition row0_3 :: "mat \<Rightarrow> exn + npfloat list" where
  "row0_3 a =
     (case a of
        [] \<Rightarrow> Inl (IndexError ''index 0 is out of bounds for axis 0 with size 0'')
      | r # _ \<Rightarrow> Inr (take 3 r))"

section \<open>The elementary builders\<close>

text \<open>
  \<open>translate\<close> and \<open>scale\<close> put their arguments into an array next to the floats \<open>1.0\<close>
  and \<open>0.0\<close>, which makes the array float64: the arguments are converted.
\<close>

definition translate :: "npfloat list \<Rightarrow> exn + mat" where
  "translate offset =
     (if length offset \<noteq> 3 then Inl (ValueError ''offset must be a length 3 sequence'')
      else
        let x = offset ! 0; y = offset ! 1; z = offset ! 2 in
        Inr [[Fin 1, Fin 0, Fin 0, Fin 0],
             [Fin 0, Fin 1, Fin 0, Fin 0],
             [Fin 0, Fin 0, Fin 1, Fin 0],
             [to_float64 x, to_float64 y, to_float64 z, Fin 1]])"

definition scale :: "npfloat list \<Rightarrow> exn + mat" where
  "scale s =
     (if length s \<noteq> 3 then Inl (ValueError ''scale must be a length 3 sequence'')
      else Inr (np_diag (map to_float64 s @ [Fin 1])))"

text \<open>
  \<open>rotate\<close> takes any array-like as its axis.  \<open>np.array(axis, copy=False)\<close> is numpy 1.x:
  it copies where it must.  \<open>len\<close> of the array is its first dimension, and a TypeError for
  a scalar.  An axis of length 3 that is not flat gives rows \<open>x\<close>, \<open>y\<close>, \<open>z\<close> that are arrays,
  and the nested list \<open>M\<close> of arrays and floats is ragged: \<open>np.array(M)\<close> raises a ValueError
  (numpy 1.24 and later; earlier versions build an array of objects).
\<close>

definition rotate_tf :: "npfloat \<Rightarrow> array_like \<Rightarrow> exn + mat" where
  "rotate_tf angle axis =
     (let angle = np_radians angle in
      case shape_of axis of
        None \<Rightarrow> Inl (ValueError ''setting an array element with a sequence'')
      | Some [] \<Rightarrow> Inl (TypeError ''len() of unsized object'')
      | Some (n # _) \<Rightarrow>
          if n \<noteq> 3 then Inl (ValueError ''axis must be a 3-element vector'')
          else
            (case as_row axis of
               None \<Rightarrow>
                 bind_exn (math_cos angle) (\<lambda>c.
                 bind_exn (math_sin angle) (\<lambda>s.
                   Inl (ValueError ''setting an array element with a sequence'')))
             | Some v \<Rightarrow>
                 let v = map to_float64 v;
                     n = linalg_norm v;
                     x = fdiv (v ! 0) n; y = fdiv (v ! 1) n; z = fdiv (v ! 2) n in
                 bind_exn (math_cos angle) (\<lambda>c.
                 bind_exn (math_sin angle) (\<lambda>s.
                   let cx = fmul (fsub (Fin 1) c) x;
                       cy = fmul (fsub (Fin 1) c) y;
                       cz = fmul (fsub (Fin 1) c) z;
                       M = [[fadd (fmul cx x) c, fsub (fmul cy x) (fmul z s),
                             fadd (fmul cz x) (fmul y s), Fin 0],
                            [fadd (fmul cx y) (fmul z s), fadd (fmul cy y) c,
                             fsub (fmul cz y) (fmul x s), Fin 0],
                            [fsub (fmul cx z) (fmul y s), fadd (fmul cy z) (fmul x s),
                             fadd (fmul cz z) c, Fin 0],
                            [Fin 0, Fin 0, Fin 0, Fin 1]]
                   in Inr (np_T M)))))"

section \<open>The methods of Transform\<close>

text \<open>The right operand of \<open>dot\<close> and \<open>@\<close>: a Transform or a raw two-dimensional array-like.\<close>

datatype operand = OtherTransform Transform | OtherArray mat

text \<open>\<open>if isinstance(other, Transform): other = other.matrix\<close>\<close>

fun other_matrix :: "operand \<Rightarrow> mat" where
  "other_matrix (OtherTransform t) = matrix t"
| "other_matrix (OtherArray a) = a"

definition is_null :: "Transform \<Rightarrow> bool" where
  "is_null self = np_allclose (matrix self) eye4"

definition matmul :: "Transform \<Rightarrow> operand \<Rightarrow> exn + Transform" where
  "matmul self other = bind_exn (np_matmul (matrix self) (other_matrix other)) Transform_of"

definition dot :: "Transform \<Rightarrow> operand \<Rightarrow> exn + Transform" where
  "dot self other = bind_exn (np_dot (matrix self) (other_matrix other)) Transform_of"

definition T_tf :: "Transform \<Rightarrow> exn + Transform" where
  "T_tf self = Transform_of (np_T (matrix self))"

text \<open>
  \<open>np.linalg.inv\<close> is the library's LAPACK routine; the methods that call it take it as
  the parameter \<open>linalg_inv\<close>.
\<close>

definition inv_tf :: "(mat \<Rightarrow> exn + mat) \<Rightarrow> Transform \<Rightarrow> exn + Transform" where
  "inv_tf linalg_inv self = bind_exn (linalg_inv (matrix self)) Transform_of"

definition translated :: "Transform \<Rightarrow> coords \<Rightarrow> exn + Transform" where
  "translated self pos =
     bind_exn (as_vec4 pos default_position) (\<lambda>pos.
     bind_exn (row0_3 pos) (\<lambda>offset.
     bind_exn (translate offset) (\<lambda>m. dot self (OtherArray m))))"

definition rotated ::
    "Transform \<Rightarrow> npfloat \<Rightarrow> array_like \<Rightarrow> coords option \<Rightarrow> exn + Transform" where
  "rotated self angle axis about =
     (case about of
        Some ab \<Rightarrow>
          bind_exn (as_vec4 ab default_position) (\<lambda>a4.
          bind_exn (row0_3 a4) (\<lambda>about.
          bind_exn (translated self (Vec (map fneg about))) (\<lambda>t1.
          bind_exn (rotate_tf angle axis) (\<lambda>r.
          bind_exn (dot t1 (OtherArray r)) (\<lambda>t2. translated t2 (Vec about))))))
      | None \<Rightarrow> bind_exn (rotate_tf angle axis) (\<lambda>r. dot self (OtherArray r)))"

definition scaled :: "Transform \<Rightarrow> coords \<Rightarrow> coords option \<Rightarrow> exn + Transform" where
  "scaled self scale_factor center =
     bind_exn (as_vec4 scale_factor default_scale) (\<lambda>s4.
     bind_exn (row0_3 s4) (\<lambda>s3.
     bind_exn (scale s3) (\<lambda>sc.
       case center of
         Some ce \<Rightarrow>
           bind_exn (as_vec4 ce default_position) (\<lambda>c4.
           bind_exn (row0_3 c4) (\<lambda>center.
           bind_exn (translate (map fneg center)) (\<lambda>t1.
           bind_exn (np_dot t1 sc) (\<lambda>d1.
           bind_exn (translate center) (\<lambda>t2.
           bind_exn (np_dot d1 t2) (\<lambda>sc'. dot self (OtherArray sc')))))))
       | None \<Rightarrow> dot self (OtherArray sc))))"

text \<open>
  The decorator \<open>_arg_to_vec4\<close> around \<open>map\<close> and \<open>imap\<close>: a Python number is refused,
  the argument is promoted with \<open>as_vec4\<close>, and the result of a flat argument is
  flattened again with \<open>np.ravel\<close>.
\<close>

definition arg_to_vec4 :: "(Transform \<Rightarrow> mat \<Rightarrow> exn + mat) \<Rightarrow> Transform \<Rightarrow> coords \<Rightarrow> exn + coords" where
  "arg_to_vec4 func self arg =
     (case arg of
        Scalar _ \<Rightarrow> Inl (TypeError ''Cannot convert argument to 4D vector'')
      | _ \<Rightarrow>
          let flatten = (ndim arg = 1) in
          bind_exn (as_vec4 arg default_position) (\<lambda>a.
          bind_exn (func self a) (\<lambda>ret.
            Inr (if flatten then Vec (concat ret) else Rows ret))))"

text \<open>
  In \<open>np.dot(coords, self.matrix)\<close> the coordinates meet a float64 matrix and are converted
  to float64.
\<close>

definition map_tf :: "Transform \<Rightarrow> coords \<Rightarrow> exn + coords" where
  "map_tf = arg_to_vec4 (\<lambda>self coords. np_dot (map (map to_float64) coords) (matrix self))"

definition imap :: "(mat \<Rightarrow> exn + mat) \<Rightarrow> Transform \<Rightarrow> coords \<Rightarrow> exn + coords" where
  "imap linalg_inv =
     arg_to_vec4 (\<lambda>self coords.
       bind_exn (linalg_inv (matrix self)) (\<lambda>i. np_dot (map (map to_float64) coords) i))"

text \<open>\<open>chain\<close>: \<open>reduce(lambda a, b: a @ b, transforms, cls())\<close>.\<close>

fun reduce_matmul :: "Transform \<Rightarrow> Transform list \<Rightarrow> exn + Transform" where
  "reduce_matmul a [] = Inr a"
| "reduce_matmul a (b # bs) = bind_exn (matmul a (OtherTransform b)) (\<lambda>c. reduce_matmul c bs)"

definition chain :: "Transform list \<Rightarrow> exn + Transform" where
  "chain transforms = bind_exn (Transform_init None) (\<lambda>seed. reduce_matmul seed transforms)"

section \<open>Model base\<close>

text \<open>The inner class \<open>Config\<close> of a model; \<open>Transform\<close> sets both options.\<close>

record Config =
  arbitrary_types_allowed :: bool
  frozen :: bool

definition Transform_Config :: Config where
  "Transform_Config = \<lparr>arbitrary_types_allowed = True, frozen = True\<rparr>"

definition default_Config :: Config where
  "default_Config = \<lparr>arbitrary_types_allowed = False, frozen = False\<rparr>"

text \<open>
  Modelled from the spec: the field assignment of \<open>ModelBase\<close> (module \<open>_base\<close>, which
  is not among the sources).  Section 4.2: a frozen model refuses every reassignment with
  an immutability error; otherwise the value is validated again and, on success, replaces
  the stored one; on failure the old value is retained and the error goes to the caller.
\<close>

definition ModelBase_setattr ::
    "Config \<Rightarrow> ('v \<Rightarrow> exn + 'v) \<Rightarrow> ('v \<Rightarrow> 'm \<Rightarrow> 'm) \<Rightarrow> 'm \<Rightarrow> 'v \<Rightarrow> exn + 'm" where
  "ModelBase_setattr cfg validate store self v =
     (if frozen cfg then Inl (ImmutabilityError ''object is immutable'')
      else bind_exn (validate v) (\<lambda>v'. Inr (store v' self)))"

text \<open>
  Modelled from the spec: the assignment \<open>t.matrix = v\<close> to the only field of a Transform,
  which goes through \<open>ModelBase\<close> (module \<open>_base\<close>, not among the sources) with the
  \<open>Config\<close> that \<open>Transform\<close> declares.  With \<open>arbitrary_types_allowed\<close> the validator of an
  ndarray field accepts every array.
\<close>

definition Transform_setattr :: "Transform \<Rightarrow> mat \<Rightarrow> exn + Transform" where
  "Transform_setattr self v =
     ModelBase_setattr Transform_Config Inr (\<lambda>m t. t\<lparr>matrix := m\<rparr>) self v"

section \<open>Objects, arrays and references\<close>

text \<open>
  To tell a new object from the receiver, and an array from a view of it, the objects are
  put on a heap.  A buffer holds the entries of an array; an ndarray is a view of a buffer,
  either as it stands or transposed; a Transform object holds the ndarray of its field
  \<open>matrix\<close>, and a reference to a Transform is an index into \<open>objects\<close>.
\<close>

record ndarray =
  buf :: nat
  transposed :: bool

record heap =
  buffers :: "mat list"
  objects :: "ndarray list"

definition read_array :: "heap \<Rightarrow> ndarray \<Rightarrow> mat" where
  "read_array h a = (if transposed a then np_T (buffers h ! buf a) else buffers h ! buf a)"

text \<open>The value of the object at a reference.\<close>

definition deref :: "heap \<Rightarrow> nat \<Rightarrow> Transform" where
  "deref h r = \<lparr>matrix = read_array h (objects h ! r)\<rparr>"

text \<open>
  The argument of \<open>Transform(matrix=...)\<close> inside the methods is a float64 ndarray: one that
  numpy has just built, in a buffer of its own, or the view \<open>self.matrix.T\<close> of a buffer
  there is.  \<open>np.asarray(matrix, dtype=float)\<close> returns such an argument as it is, without a
  copy; the shape is checked as in \<open>Transform_init\<close>, and the new object is put at the next
  reference.
\<close>

datatype array_arg = New_array mat | View ndarray

definition Transform_new :: "heap \<Rightarrow> array_arg \<Rightarrow> heap \<times> (exn + nat)" where
  "Transform_new h arg =
     (case arg of
        New_array m \<Rightarrow>
          (case Transform_of m of
             Inl e \<Rightarrow> (h, Inl e)
           | Inr _ \<Rightarrow>
               (\<lparr>buffers = buffers h @ [m],
                 objects = objects h @ [\<lparr>buf = length (buffers h), transposed = False\<rparr>]\<rparr>,
                Inr (length (objects h))))
      | View a \<Rightarrow>
          (case Transform_of (read_array h a) of
             Inl e \<Rightarrow> (h, Inl e)
           | Inr _ \<Rightarrow> (h\<lparr>objects := objects h @ [a]\<rparr>, Inr (length (objects h)))))"

text \<open>
  The constructor as a caller uses it, \<open>Transform()\<close> or \<open>Transform(a)\<close> with a nested
  sequence \<open>a\<close>: \<open>np.eye(4)\<close> and \<open>np.asarray\<close> of a sequence build a new array.
\<close>

definition Transform_create :: "heap \<Rightarrow> array_like option \<Rightarrow> heap \<times> (exn + nat)" where
  "Transform_create h arg =
     (case Transform_init arg of
        Inl e \<Rightarrow> (h, Inl e)
      | Inr t \<Rightarrow>
          (\<lparr>buffers = buffers h @ [matrix t],
            objects = objects h @ [\<lparr>buf = length (buffers h), transposed = False\<rparr>]\<rparr>,
           Inr (length (objects h))))"

definition empty_heap :: heap where
  "empty_heap = \<lparr>buffers = [], objects = []\<rparr>"

text \<open>The right operand of \<open>dot\<close> and \<open>@\<close> on the heap: a reference or a raw array-like.\<close>

datatype ref_operand = Other_ref nat | Other_raw mat

fun operand_matrix :: "heap \<Rightarrow> ref_operand \<Rightarrow> mat" where
  "operand_matrix h (Other_ref r) = matrix (deref h r)"
| "operand_matrix h (Other_raw a) = a"

definition hbind ::
    "heap \<times> (exn + 'a) \<Rightarrow> (heap \<Rightarrow> 'a \<Rightarrow> heap \<times> (exn + 'b)) \<Rightarrow> heap \<times> (exn + 'b)" where
  "hbind r f = (case r of (h, Inl e) \<Rightarrow> (h, Inl e) | (h, Inr x) \<Rightarrow> f h x)"

text \<open>
  The methods of Transform on the heap, statement by statement as in the source: each
  reads \<open>self.matrix\<close> and ends in a call of the constructor.
\<close>

definition h_matmul :: "heap \<Rightarrow> nat \<Rightarrow> ref_operand \<Rightarrow> heap \<times> (exn + nat)" where
  "h_matmul h self other =
     (case np_matmul (matrix (deref h self)) (operand_matrix h other) of
        Inl e \<Rightarrow> (h, Inl e)
      | Inr m \<Rightarrow> Transform_new h (New_array m))"

definition h_dot :: "heap \<Rightarrow> nat \<Rightarrow> ref_operand \<Rightarrow> heap \<times> (exn + nat)" where
  "h_dot h self other =
     (case np_dot (matrix (deref h self)) (operand_matrix h other) of
        Inl e \<Rightarrow> (h, Inl e)
      | Inr m \<Rightarrow> Transform_new h (New_array m))"

text \<open>\<open>self.matrix.T\<close> is a view of the receiver's buffer, not a copy.\<close>

definition h_T :: "heap \<Rightarrow> nat \<Rightarrow> heap \<times> (exn + nat)" where
  "h_T h self =
     Transform_new h
       (View ((objects h ! self)\<lparr>transposed := \<not> transposed (objects h ! self)\<rparr>))"

definition h_inv :: "(mat \<Rightarrow> exn + mat) \<Rightarrow> heap \<Rightarrow> nat \<Rightarrow> heap \<times> (exn + nat)" where
  "h_inv linalg_inv h self =
     (case linalg_inv (matrix (deref h self)) of
        Inl e \<Rightarrow> (h, Inl e)
      | Inr m \<Rightarrow> Transform_new h (New_array m))"

definition h_translated :: "heap \<Rightarrow> nat \<Rightarrow> coords \<Rightarrow> heap \<times> (exn + nat)" where
  "h_translated h self pos =
     (case bind_exn (as_vec4 pos default_position) (\<lambda>pos.
           bind_exn (row0_3 pos) translate) of
        Inl e \<Rightarrow> (h, Inl e)
      | Inr m \<Rightarrow> h_dot h self (Other_raw m))"

definition h_rotated ::
    "heap \<Rightarrow> nat \<Rightarrow> npfloat \<Rightarrow> array_like \<Rightarrow> coords option \<Rightarrow> heap \<times> (exn + nat)" where
  "h_rotated h self angle axis about =
     (case about of
        Some ab \<Rightarrow>
          (case bind_exn (as_vec4 ab default_position) row0_3 of
             Inl e \<Rightarrow> (h, Inl e)
           | Inr about \<Rightarrow>
               hbind (h_translated h self (Vec (map fneg about))) (\<lambda>h1 t1.
                 case rotate_tf angle axis of
                   Inl e \<Rightarrow> (h1, Inl e)
                 | Inr r \<Rightarrow>
                     hbind (h_dot h1 t1 (Other_raw r)) (\<lambda>h2 t2.
                       h_translated h2 t2 (Vec about))))
      | None \<Rightarrow>
          (case rotate_tf angle axis of
             Inl e \<Rightarrow> (h, Inl e)
           | Inr r \<Rightarrow> h_dot h self (Other_raw r)))"

definition h_scaled :: "heap \<Rightarrow> nat \<Rightarrow> coords \<Rightarrow> coords option \<Rightarrow> heap \<times> (exn + nat)" where
  "h_scaled h self scale_factor center =
     (case bind_exn (as_vec4 scale_factor default_scale) (\<lambda>s4.
           bind_exn (row0_3 s4) (\<lambda>s3.
           bind_exn (scale s3) (\<lambda>sc.
             case center of
               Some ce \<Rightarrow>
                 bind_exn (as_vec4 ce default_position) (\<lambda>c4.
                 bind_exn (row0_3 c4) (\<lambda>center.
                 bind_exn (translate (map fneg center)) (\<lambda>t1.
                 bind_exn (np_dot t1 sc) (\<lambda>d1.
                 bind_exn (translate center) (\<lambda>t2. np_dot d1 t2)))))
             | None \<Rightarrow> Inr sc))) of
        Inl e \<Rightarrow> (h, Inl e)
      | Inr sc \<Rightarrow> h_dot h self (Other_raw sc))"

text \<open>A call of one of the methods that look like mutators.\<close>

datatype method_call =
    Call_dot ref_operand
  | Call_matmul ref_operand
  | Call_T
  | Call_inv
  | Call_translated coords
  | Call_rotated npfloat array_like "coords option"
  | Call_scaled coords "coords option"

fun run :: "(mat \<Rightarrow> exn + mat) \<Rightarrow> heap \<Rightarrow> nat \<Rightarrow> method_call \<Rightarrow> heap \<times> (exn + nat)" where
  "run li h self (Call_dot other) = h_dot h self other"
| "run li h self (Call_matmul other) = h_matmul h self other"
| "run li h self Call_T = h_T h self"
| "run li h self Call_inv = h_inv li h self"
| "run li h self (Call_translated pos) = h_translated h self pos"
| "run li h self (Call_rotated angle axis about) = h_rotated h self angle axis about"
| "run li h self (Call_scaled scale_factor center) = h_scaled h self scale_factor center"

text \<open>The same call on the value of the receiver.\<close>

fun operand_value :: "heap \<Rightarrow> ref_operand \<Rightarrow> operand" where
  "operand_value h (Other_ref r) = OtherTransform (deref h r)"
| "operand_value h (Other_raw a) = OtherArray a"

fun run_value ::
    "(mat \<Rightarrow> exn + mat) \<Rightarrow> heap \<Rightarrow> Transform \<Rightarrow> method_call \<Rightarrow> exn + Transform" where
  "run_value li h self (Call_dot other) = dot self (operand_value h other)"
| "run_value li h self (Call_matmul other) = matmul self (operand_value h other)"
| "run_value li h self Call_T = T_tf self"
| "run_value li h self Call_inv = inv_tf li self"
| "run_value li h self (Call_translated pos) = translated self pos"
| "run_value li h self (Call_rotated angle axis about) = rotated self angle axis about"
| "run_value li h self (Call_scaled scale_factor center) = scaled self scale_factor center"

text \<open>
  The assignment \<open>t.matrix = v\<close> to the object at a reference: when \<open>ModelBase\<close> lets it
  through, the field holds the new array.
\<close>

definition assign_matrix :: "heap \<Rightarrow> nat \<Rightarrow> mat \<Rightarrow> heap \<times> (exn + unit)" where
  "assign_matrix h self v =
     (case Transform_setattr (deref h self) v of
        Inl e \<Rightarrow> (h, Inl e)
      | Inr t \<Rightarrow>
          (\<lparr>buffers = buffers h @ [matrix t],
            objects = (objects h)[self := \<lparr>buf = length (buffers h), transposed = False\<rparr>]\<rparr>,
           Inr ()))"

text \<open>
  A heap is well formed when every object's array is a view of a buffer of the heap and
  every buffer has the shape \<open>(4, 4)\<close>, as the constructor makes it.  A later heap extends
  an earlier one when the earlier buffers and objects are still there, unchanged.
\<close>

definition wf_heap :: "heap \<Rightarrow> bool" where
  "wf_heap h =
     (list_all (\<lambda>a. buf a < length (buffers h)) (objects h) \<and>
      list_all (\<lambda>b. shape2 b = Some (4, 4)) (buffers h))"

definition heap_extends :: "heap \<Rightarrow> heap \<Rightarrow> bool" where
  "heap_extends h h' =
     (take (length (buffers h)) (buffers h') = buffers h \<and>
      take (length (objects h)) (objects h') = objects h \<and>
      length (buffers h) \<le> length (buffers h') \<and>
      length (objects h) \<le> length (objects h'))"

section \<open>Node and its backend\<close>

text \<open>The fields of \<open>Node\<close> and the values they hold.\<close>

datatype node_field =
  F_name | F_parent | F_children | F_visible | F_opacity | F_order | F_interactive | F_transform

datatype pyval =
    PNone
  | PBool bool
  | PInt int
  | PFloat npfloat
  | PStr string
  | PNode nat
  | PNodes "nat list"
  | PTransform Transform

fun field_name :: "node_field \<Rightarrow> string" where
  "field_name F_name = ''name''"
| "field_name F_parent = ''parent''"
| "field_name F_children = ''children''"
| "field_name F_visible = ''visible''"
| "field_name F_opacity = ''opacity''"
| "field_name F_order = ''order''"
| "field_name F_interactive = ''interactive''"
| "field_name F_transform = ''transform''"

text \<open>The declared defaults of the fields.\<close>

fun field_default :: "node_field \<Rightarrow> pyval" where
  "field_default F_name = PNone"
| "field_default F_parent = PNone"
| "field_default F_children = PNodes []"
| "field_default F_visible = PBool True"
| "field_default F_opacity = PFloat (Fin 1)"
| "field_default F_order = PInt 0"
| "field_default F_interactive = PBool False"
| "field_default F_transform = PNone"

text \<open>
  The protocol \<open>NodeBackend\<close>: one setter per field, \<open>_viz_set_<field>\<close>, with one
  argument.
\<close>

definition setter_name :: "node_field \<Rightarrow> string" where
  "setter_name f = ''_viz_set_'' @ field_name f"

text \<open>
  Modelled from the spec: a backend object that satisfies the protocol (section 4.3; the
  concrete backends are outside the sources).  It is known by what its setters answer
  (\<open>None\<close>, or the exception they raise) and by the calls it has received.
\<close>

record NodeBackend =
  raises :: "string \<Rightarrow> pyval \<Rightarrow> exn option"
  calls :: "(string \<times> pyval) list"

text \<open>
  Modelled from the spec: one call of a setter of the backend (section 4.3); the call is
  recorded whether or not it raises.
\<close>

definition backend_call :: "string \<Rightarrow> pyval \<Rightarrow> NodeBackend \<Rightarrow> NodeBackend \<times> exn option" where
  "backend_call opn arg b = (b\<lparr>calls := calls b @ [(opn, arg)]\<rparr>, raises b opn arg)"

record Node =
  field_values :: "node_field \<Rightarrow> pyval"
  backend :: "NodeBackend option"

definition Node_init :: Node where
  "Node_init = \<lparr>field_values = field_default, backend = None\<rparr>"

text \<open>
  Modelled from the spec: binding (section 4.3).  A front end starts without a backend
  and is bound by supplying one.
\<close>

definition attach :: "NodeBackend \<Rightarrow> Node \<Rightarrow> Node" where
  "attach b self = self\<lparr>backend := Some b\<rparr>"

text \<open>
  Modelled from the spec: the validation of a field of \<open>ModelBase\<close> (module \<open>_base\<close>,
  which is not among the sources), for the declarations of \<open>Node\<close>.  Section 4.2: a value
  is checked against the declared semantic type of its field, as \<open>node.py\<close> annotates it.
\<close>

fun has_declared_type :: "node_field \<Rightarrow> pyval \<Rightarrow> bool" where
  "has_declared_type F_name v = (case v of PNone \<Rightarrow> True | PStr _ \<Rightarrow> True | _ \<Rightarrow> False)"
| "has_declared_type F_parent v = (case v of PNone \<Rightarrow> True | PNode _ \<Rightarrow> True | _ \<Rightarrow> False)"
| "has_declared_type F_children v = (case v of PNodes _ \<Rightarrow> True | _ \<Rightarrow> False)"
| "has_declared_type F_visible v = (case v of PBool _ \<Rightarrow> True | _ \<Rightarrow> False)"
| "has_declared_type F_opacity v = (case v of PFloat _ \<Rightarrow> True | _ \<Rightarrow> False)"
| "has_declared_type F_order v = (case v of PInt _ \<Rightarrow> True | _ \<Rightarrow> False)"
| "has_declared_type F_interactive v = (case v of PBool _ \<Rightarrow> True | _ \<Rightarrow> False)"
| "has_declared_type F_transform v = (case v of PNone \<Rightarrow> True | PTransform _ \<Rightarrow> True | _ \<Rightarrow> False)"

text \<open>
  Modelled from the spec: the range constraint of a field (section 4.2).  The only one
  \<open>Node\<close> declares is \<open>ge=0, le=1\<close> on \<open>opacity\<close>, with the comparisons of Python floats.
\<close>

fun in_range :: "node_field \<Rightarrow> pyval \<Rightarrow> bool" where
  "in_range F_opacity (PFloat x) = (fle (Fin 0) x \<and> fle x (Fin 1))"
| "in_range _ _ = True"

text \<open>
  Modelled from the spec: the validator of a field (section 4.2): the value itself when it
  conforms, a validation error naming the field otherwise.
\<close>

definition validate_field :: "node_field \<Rightarrow> pyval \<Rightarrow> exn + pyval" where
  "validate_field f v =
     (if has_declared_type f v \<and> in_range f v then Inr v
      else Inl (ValidationError (field_name f)))"

text \<open>
  Modelled from the spec: the assignment to a field of a front end, \<open>FrontEndFor\<close>
  (module \<open>_base\<close>, which is not among the sources).  Sections 4.2 and 4.3: the value is
  validated and stored as in \<open>ModelBase\<close>; then, when a backend is attached, the setter
  named for the field is called on it with the new value; an exception of the backend goes
  to the caller and the stored value is not rolled back.  Without a backend no call occurs.
\<close>

definition Node_setattr :: "Node \<Rightarrow> node_field \<Rightarrow> pyval \<Rightarrow> Node \<times> (exn + unit)" where
  "Node_setattr self f v =
     (case ModelBase_setattr default_Config (validate_field f)
             (\<lambda>v' n. n\<lparr>field_values := (field_values n)(f := v')\<rparr>) self v of
        Inl e \<Rightarrow> (self, Inl e)
      | Inr self' \<Rightarrow>
          (case backend self' of
             None \<Rightarrow> (self', Inr ())
           | Some b \<Rightarrow>
               (case backend_call (setter_name f) (field_values self' f) b of
                  (b', None) \<Rightarrow> (self'\<lparr>backend := Some b'\<rparr>, Inr ())
                | (b', Some e) \<Rightarrow> (self'\<lparr>backend := Some b'\<rparr>, Inl e))))"

section \<open>Example inputs\<close>

definition example_A :: mat where
  "example_A =
    [[Fin 1, Fin 2, Fin 0, Fin 0],
     [Fin 0, Fin 1, Fin 0, Fin 0],
     [Fin 0, Fin 0, Fin 1, Fin 0],
     [Fin 3, Fin 0, Fin 0, Fin 1]]"

definition example_B :: mat where
  "example_B =
    [[Fin 2, Fin 0, Fin 0, Fin 0],
     [Fin 0, Fin 1, Fin 0, Fin 0],
     [Fin 0, Fin 0, Fin 1, Fin 5],
     [Fin 0, Fin 7, Fin 0, Fin 1]]"

text \<open>A matrix of numbers proper: no entry is NaN or infinite.\<close>

definition all_finite :: "mat \<Rightarrow> bool" where
  "all_finite m = list_all (list_all is_finite) m"

text \<open>
  The identity with \<open>1 + 2**-30\<close> in its first entry: a float of its own, different from
  \<open>1.0\<close>.
\<close>

definition near_identity :: mat where
  "near_identity =
    [[Fin (1 + 1 / 2 ^ 30), Fin 0, Fin 0, Fin 0],
     [Fin 0, Fin 1, Fin 0, Fin 0],
     [Fin 0, Fin 0, Fin 1, Fin 0],
     [Fin 0, Fin 0, Fin 0, Fin 1]]"

text \<open>A backend whose setters never raise, with no call received yet.\<close>

definition recording_backend :: NodeBackend where
  "recording_backend = \<lparr>raises = (\<lambda>_ _. None), calls = []\<rparr>"

text \<open>The largest float64 number.\<close>

definition float64_max :: real where
  "float64_max = (2 ^ 53 - 1) * 2 ^ 971"

text \<open>
  What a method call may do to a well-formed heap: extend it, and return a reference that
  was not there before.
\<close>

definition fresh_result :: "heap \<Rightarrow> heap \<times> (exn + nat) \<Rightarrow> bool" where
  "fresh_result h res =
     (case res of
        (h', r) \<Rightarrow>
          heap_extends h h' \<and> wf_heap h' \<and>
          (case r of
             Inl e \<Rightarrow> True
           | Inr new \<Rightarrow> length (objects h) \<le> new \<and> new < length (objects h')))"

text \<open>
  A result on the heap agrees with a result on values: the same exception, or a reference
  to an object with the same value.
\<close>

definition agrees :: "exn + Transform \<Rightarrow> heap \<times> (exn + nat) \<Rightarrow> bool" where
  "agrees v res =
     (case res of
        (h', Inl e) \<Rightarrow> v = Inl e
      | (h', Inr new) \<Rightarrow> v = Inr (deref h' new))"

text \<open>A heap with one Transform object, whose matrix is \<open>example_A\<close>.\<close>

definition example_heap :: heap where
  "example_heap = \<lparr>buffers = [example_A], objects = [\<lparr>buf = 0, transposed = False\<rparr>]\<rparr>"

text \<open>The identity with \<open>inf\<close> in its first entry.\<close>

definition infinite_scale :: mat where
  "infinite_scale =
    [[PInf, Fin 0, Fin 0, Fin 0],
     [Fin 0, Fin 1, Fin 0, Fin 0],
     [Fin 0, Fin 0, Fin 1, Fin 0],
     [Fin 0, Fin 0, Fin 0, Fin 1]]"

section \<open>Facts about construction\<close>

lemma those_list_map_Some: "those_list (map Some xs) = Some xs"
  by (induction xs) auto

lemma as_row_of_nums: "as_row (Seq (map Num r)) = Some r"
  by (induction r) auto

lemma as_rows_of_rows: "as_rows (of_rows m) = Some m"
  unfolding of_rows_def by (induction m) (auto simp: as_row_of_nums simp del: as_row.simps)

lemma shape_of_nums: "shape_of (Seq (map Num r)) = Some [length r]"
  by (cases r) (auto simp: list_all_iff)

lemma shape_of_of_rows:
  assumes "shape2 m = Some (r, c)"
  shows "shape_of (of_rows m) = Some [r, c]"
proof (cases m)
  case Nil
  with assms show ?thesis by (simp add: shape2_def)
next
  case (Cons q qs)
  with assms have all: "list_all (\<lambda>p. length p = length q) qs"
    and r: "r = Suc (length qs)" and c: "c = length q"
    by (auto simp: shape2_def split: if_splits)
  have "list_all (\<lambda>y. shape_of y = Some [length q]) (map (\<lambda>r. Seq (map Num r)) qs)"
    using all by (induction qs) (auto simp: shape_of_nums)
  then show ?thesis using Cons r c by (simp add: of_rows_def shape_of_nums)
qed

lemma shape2_of_shape_of:
  assumes "shape_of (of_rows m) = Some [r, c]"
  shows "shape2 m = Some (r, c)"
proof (cases m)
  case Nil
  with assms show ?thesis by (simp add: of_rows_def)
next
  case (Cons q qs)
  with assms have all: "list_all (\<lambda>y. shape_of y = Some [length q]) (map (\<lambda>r. Seq (map Num r)) qs)"
    and r: "r = Suc (length qs)" and c: "c = length q"
    by (auto simp: of_rows_def shape_of_nums split: if_splits)
  have "list_all (\<lambda>p. length p = length q) qs"
    using all by (induction qs) (auto simp: shape_of_nums)
  then show ?thesis using Cons r c by (simp add: shape2_def)
qed

text \<open>The constructor accepts exactly the arrays of shape \<open>(4, 4)\<close> and keeps them as they are.\<close>

lemma Transform_of_4x4: "shape2 m = Some (4, 4) \<Longrightarrow> Transform_of m = Inr \<lparr>matrix = m\<rparr>"
  using shape_of_of_rows [of m 4 4]
  by (simp add: Transform_of_def Transform_init_def as_rows_of_rows)

lemma Transform_of_Inr:
  "Transform_of m = Inr t \<Longrightarrow> t = \<lparr>matrix = m\<rparr> \<and> shape2 m = Some (4, 4)"
  by (auto simp: Transform_of_def Transform_init_def as_rows_of_rows shape2_of_shape_of
      split: option.splits if_splits)

section \<open>Construction\<close>

text \<open>An array-like of shape \<open>(r, c)\<close> is a sequence of \<open>r\<close> rows of \<open>c\<close> numbers.\<close>

lemma shape_of_scalar: "shape_of y = Some [] \<Longrightarrow> \<exists>v. y = Num v"
proof (cases y)
  case (Num v)
  then show ?thesis by simp
next
  case (Seq ys)
  assume "shape_of y = Some []"
  with Seq show ?thesis by (cases ys) (auto split: option.splits if_splits)
qed

lemma all_scalars:
  "list_all (\<lambda>y. shape_of y = Some []) ys \<Longrightarrow> \<exists>vs. ys = map Num vs"
proof (induction ys)
  case Nil
  then show ?case by simp
next
  case (Cons y ys)
  then obtain v vs where "y = Num v" "ys = map Num vs"
    using shape_of_scalar [of y] by auto
  then have "y # ys = map Num (v # vs)" by simp
  then show ?case by (rule exI)
qed

lemma shape_of_vector:
  assumes "shape_of x = Some [n]"
  shows "\<exists>vs. x = Seq (map Num vs) \<and> length vs = n"
proof (cases x)
  case (Num v)
  with assms show ?thesis by simp
next
  case (Seq ys)
  show ?thesis
  proof (cases ys)
    case Nil
    with Seq assms show ?thesis by simp
  next
    case (Cons y ys')
    with Seq assms have "list_all (\<lambda>y. shape_of y = Some []) (y # ys')" and n: "n = length (y # ys')"
      by (auto split: option.splits if_splits)
    from all_scalars [OF this(1)] obtain vs where vs: "y # ys' = map Num vs" by (elim exE)
    with n have "length vs = n" by (metis length_map)
    with Seq Cons vs show ?thesis by auto
  qed
qed

lemma all_vectors:
  "list_all (\<lambda>y. shape_of y = Some [c]) ys \<Longrightarrow>
     \<exists>m. ys = map (\<lambda>r. Seq (map Num r)) m \<and> list_all (\<lambda>r. length r = c) m"
proof (induction ys)
  case Nil
  then show ?case by simp
next
  case (Cons y ys)
  then obtain r m where "y = Seq (map Num r)" "length r = c"
      "ys = map (\<lambda>r. Seq (map Num r)) m" "list_all (\<lambda>r. length r = c) m"
    using shape_of_vector [of y c] by auto
  then have "y # ys = map (\<lambda>r. Seq (map Num r)) (r # m) \<and> list_all (\<lambda>r. length r = c) (r # m)"
    by simp
  then show ?case by (rule exI)
qed

lemma shape_of_matrix:
  assumes "shape_of a = Some [r, c]"
  shows "\<exists>m. a = of_rows m \<and> shape2 m = Some (r, c)"
proof (cases a)
  case (Num v)
  with assms show ?thesis by simp
next
  case (Seq ys)
  show ?thesis
  proof (cases ys)
    case Nil
    with Seq assms show ?thesis by simp
  next
    case (Cons y ys')
    with Seq assms have "list_all (\<lambda>y. shape_of y = Some [c]) (y # ys')" and r: "r = length (y # ys')"
      by (auto split: option.splits if_splits)
    from all_vectors [OF this(1)] obtain m where m: "y # ys' = map (\<lambda>r. Seq (map Num r)) m"
      "list_all (\<lambda>r. length r = c) m" by (elim exE conjE)
    from m(1) r have len: "length m = r" by (metis length_map)
    from m(1) have ne: "m \<noteq> []" by auto
    have "shape2 m = Some (r, c)"
      using ne m(2) len by (cases m) (auto simp: shape2_def list_all_iff)
    with Seq Cons m(1) show ?thesis by (auto simp: of_rows_def)
  qed
qed

lemma Transform_init_4x4:
  assumes "shape_of a = Some [4, 4]"
  shows "\<exists>m. a = of_rows m \<and> shape2 m = Some (4, 4) \<and> Transform_init (Some a) = Inr \<lparr>matrix = m\<rparr>"
proof -
  from shape_of_matrix [OF assms] obtain m where m: "a = of_rows m" "shape2 m = Some (4, 4)"
    by blast
  with Transform_of_4x4 [OF m(2)] show ?thesis by (auto simp: Transform_of_def)
qed

text \<open>
  Claim C9.  \<open>Transform()\<close> is the identity transform, and the construction from an
  array-like whose shape is not \<open>(4, 4)\<close>, such as a 3x3 or a 4x5 matrix, fails with the
  ValueError of the shape check; the result is the error alone, no object is built.  An
  array-like of shape \<open>(4, 4)\<close> is accepted and kept as the matrix.
\<close>

theorem Transform_init_identity_or_shape_error:
  "Transform_init None = Inr \<lparr>matrix = eye4\<rparr> \<and>
   (shape_of a = Some s \<and> s \<noteq> [4, 4] \<longrightarrow>
      Transform_init (Some a) = Inl (ValueError ''Expected 4x4 matrix'')) \<and>
   (shape_of a = Some [4, 4] \<longrightarrow>
      (\<exists>m. a = of_rows m \<and> Transform_init (Some a) = Inr \<lparr>matrix = m\<rparr>))"
proof (intro conjI impI)
  show "Transform_init None = Inr \<lparr>matrix = eye4\<rparr>" by (simp add: Transform_init_def)
next
  assume "shape_of a = Some s \<and> s \<noteq> [4, 4]"
  then show "Transform_init (Some a) = Inl (ValueError ''Expected 4x4 matrix'')"
    by (simp add: Transform_init_def)
next
  assume "shape_of a = Some [4, 4]"
  from Transform_init_4x4 [OF this]
  show "\<exists>m. a = of_rows m \<and> Transform_init (Some a) = Inr \<lparr>matrix = m\<rparr>" by blast
qed

theorem Transform_init_identity_or_shape_error_witness:
  "shape_of (of_rows [[Fin 1, Fin 0, Fin 0], [Fin 0, Fin 1, Fin 0], [Fin 0, Fin 0, Fin 1]])
     = Some [3, 3]
   \<and> Transform_init
        (Some (of_rows [[Fin 1, Fin 0, Fin 0], [Fin 0, Fin 1, Fin 0], [Fin 0, Fin 0, Fin 1]]))
      = Inl (ValueError ''Expected 4x4 matrix'')
   \<and> shape_of (of_rows [[Fin 1, Fin 0, Fin 0, Fin 0, Fin 2], [Fin 0, Fin 1, Fin 0, Fin 0, Fin 2],
                        [Fin 0, Fin 0, Fin 1, Fin 0, Fin 2], [Fin 0, Fin 0, Fin 0, Fin 1, Fin 2]])
     = Some [4, 5]
   \<and> Transform_init
        (Some (of_rows [[Fin 1, Fin 0, Fin 0, Fin 0, Fin 2], [Fin 0, Fin 1, Fin 0, Fin 0, Fin 2],
                        [Fin 0, Fin 0, Fin 1, Fin 0, Fin 2], [Fin 0, Fin 0, Fin 0, Fin 1, Fin 2]]))
      = Inl (ValueError ''Expected 4x4 matrix'')
   \<and> shape_of (of_rows example_A) = Some [4, 4]
   \<and> Transform_init (Some (of_rows example_A)) = Inr \<lparr>matrix = example_A\<rparr>"
proof -
  have s33: "shape_of (of_rows [[Fin 1, Fin 0, Fin 0], [Fin 0, Fin 1, Fin 0], [Fin 0, Fin 0, Fin 1]])
     = Some [3, 3]" by (simp add: of_rows_def)
  have s45: "shape_of (of_rows [[Fin 1, Fin 0, Fin 0, Fin 0, Fin 2], [Fin 0, Fin 1, Fin 0, Fin 0, Fin 2],
                        [Fin 0, Fin 0, Fin 1, Fin 0, Fin 2], [Fin 0, Fin 0, Fin 0, Fin 1, Fin 2]])
     = Some [4, 5]" by (simp add: of_rows_def)
  have s44: "shape_of (of_rows example_A) = Some [4, 4]" by (simp add: of_rows_def example_A_def)
  from Transform_init_identity_or_shape_error [of "of_rows example_A" "[4, 4]"] s44
  obtain m where m: "of_rows example_A = of_rows m"
      "Transform_init (Some (of_rows example_A)) = Inr \<lparr>matrix = m\<rparr>" by blast
  from m(1) have "as_rows (of_rows example_A) = as_rows (of_rows m)" by simp
  then have "m = example_A" by (simp add: as_rows_of_rows)
  with m(2) s33 s45 s44
    Transform_init_identity_or_shape_error
      [of "of_rows [[Fin 1, Fin 0, Fin 0], [Fin 0, Fin 1, Fin 0], [Fin 0, Fin 0, Fin 1]]" "[3, 3]"]
    Transform_init_identity_or_shape_error
      [of "of_rows [[Fin 1, Fin 0, Fin 0, Fin 0, Fin 2], [Fin 0, Fin 1, Fin 0, Fin 0, Fin 2],
                    [Fin 0, Fin 0, Fin 1, Fin 0, Fin 2], [Fin 0, Fin 0, Fin 0, Fin 1, Fin 2]]"
          "[4, 5]"]
  show ?thesis by simp
qed

section \<open>Composition\<close>

lemma shape2_rows_of_length:
  assumes "a \<noteq> []" "\<And>row. length (f row) = c"
  shows "shape2 (map f a) = Some (length a, c)"
  using assms by (cases a) (auto simp: shape2_def list_all_iff)

lemma shape2_nonempty: "shape2 a = Some (r, n) \<Longrightarrow> a \<noteq> [] \<and> length a = r"
  by (auto simp: shape2_def split: list.splits if_splits)

text \<open>On numbers, \<open>inner\<close> is the sum of the products of the components.\<close>

lemma inner_Fin: "inner (map Fin xs) (map Fin ys) = Fin (sum_list (map2 (*) xs ys))"
  by (induction xs ys rule: list_induct2') auto

lemma np_dot_Inr:
  assumes "shape2 a = Some (r, n)" "shape2 b = Some (n, c)"
  shows "np_dot a b = Inr (map (\<lambda>row. map (\<lambda>j. inner row (column b j)) [0..<c]) a)"
  using assms by (simp add: np_dot_def)

lemma np_dot_shape:
  assumes "shape2 a = Some (r, n)" "shape2 b = Some (n, c)"
  shows "\<exists>p. np_dot a b = Inr p \<and> shape2 p = Some (r, c)"
proof -
  let ?p = "map (\<lambda>row. map (\<lambda>j. inner row (column b j)) [0..<c]) a"
  have "shape2 ?p = Some (r, c)"
    using shape2_rows_of_length [of a "\<lambda>row. map (\<lambda>j. inner row (column b j)) [0..<c]" c]
      shape2_nonempty [OF assms(1)] by simp
  with np_dot_Inr [OF assms] show ?thesis by simp
qed


lemma upt_0_4: "[0..<4] = [0, 1, 2, 3]"
  by (simp add: upt_conv_Cons)


section \<open>Chaining\<close>

lemma length_4_explicit: "length xs = 4 \<Longrightarrow> \<exists>a b c d. xs = [a, b, c, d]"
  by (auto simp: eval_nat_numeral length_Suc_conv)

lemma shape2_4x4_rows:
  assumes "shape2 m = Some (4, 4)"
  shows "\<exists>r0 r1 r2 r3. m = [r0, r1, r2, r3] \<and> length r0 = 4 \<and> length r1 = 4 \<and>
           length r2 = 4 \<and> length r3 = 4"
proof -
  from assms have len: "length m = 4" and all: "\<forall>q \<in> set m. length q = 4"
    by (auto simp: shape2_def list_all_iff split: list.splits if_splits)
  from length_4_explicit [OF len] obtain r0 r1 r2 r3 where "m = [r0, r1, r2, r3]" by blast
  with all show ?thesis by simp
qed

lemma is_finite_Fin: "is_finite x \<Longrightarrow> \<exists>r. x = Fin r"
  by (cases x) auto

lemma finite_row_explicit:
  assumes "length r = 4" "list_all is_finite r"
  shows "\<exists>a b c d. r = [Fin a, Fin b, Fin c, Fin d]"
proof -
  from length_4_explicit [OF assms(1)] obtain x y z w where r: "r = [x, y, z, w]" by blast
  with assms(2) have "is_finite x" "is_finite y" "is_finite z" "is_finite w" by simp_all
  then show ?thesis using r by (auto dest!: is_finite_Fin)
qed

lemma np_dot_eye4_left:
  assumes "shape2 m = Some (4, 4)" "all_finite m"
  shows "np_dot eye4 m = Inr m"
proof -
  from shape2_4x4_rows [OF assms(1)] obtain r0 r1 r2 r3 where
    m: "m = [r0, r1, r2, r3]" and len: "length r0 = 4" "length r1 = 4" "length r2 = 4" "length r3 = 4"
    by blast
  from assms(2) m have fin: "list_all is_finite r0" "list_all is_finite r1"
      "list_all is_finite r2" "list_all is_finite r3"
    by (simp_all add: all_finite_def)
  from finite_row_explicit [OF len(1) fin(1)] obtain a0 a1 a2 a3 where
    r0: "r0 = [Fin a0, Fin a1, Fin a2, Fin a3]" by blast
  from finite_row_explicit [OF len(2) fin(2)] obtain b0 b1 b2 b3 where
    r1: "r1 = [Fin b0, Fin b1, Fin b2, Fin b3]" by blast
  from finite_row_explicit [OF len(3) fin(3)] obtain c0 c1 c2 c3 where
    r2: "r2 = [Fin c0, Fin c1, Fin c2, Fin c3]" by blast
  from finite_row_explicit [OF len(4) fin(4)] obtain d0 d1 d2 d3 where
    r3: "r3 = [Fin d0, Fin d1, Fin d2, Fin d3]" by blast
  have e: "shape2 eye4 = Some (4, 4)" by (simp add: eye4_def shape2_def)
  show ?thesis
    unfolding np_dot_Inr [OF e assms(1)]
    unfolding m r0 r1 r2 r3 by (simp add: eye4_def column_def upt_0_4)
qed

lemma chain_empty: "chain [] = Inr \<lparr>matrix = eye4\<rparr>"
  by (simp add: chain_def Transform_init_def bind_exn_def)

lemma seed_matmul:
  assumes "shape2 (matrix t) = Some (4, 4)" "all_finite (matrix t)"
  shows "matmul \<lparr>matrix = eye4\<rparr> (OtherTransform t) = Inr t"
  using np_dot_eye4_left [OF assms] Transform_of_4x4 [OF assms(1)]
  by (simp add: matmul_def np_matmul_def bind_exn_def)

lemma chain_Cons:
  assumes "shape2 (matrix t) = Some (4, 4)" "all_finite (matrix t)"
  shows "chain (t # ts) = reduce_matmul t ts"
  using seed_matmul [OF assms] by (simp add: chain_def Transform_init_def bind_exn_def)

lemma matmul_4x4:
  assumes "shape2 (matrix a) = Some (4, 4)" "shape2 (matrix b) = Some (4, 4)"
  shows "\<exists>c. matmul a (OtherTransform b) = Inr c \<and> shape2 (matrix c) = Some (4, 4)"
proof -
  from np_dot_shape [OF assms] obtain p where p: "np_dot (matrix a) (matrix b) = Inr p"
    "shape2 p = Some (4, 4)" by blast
  then show ?thesis using Transform_of_4x4 [OF p(2)]
    by (simp add: matmul_def np_matmul_def bind_exn_def)
qed

text \<open>
  Claim C6, as stated, fails: the reduction starts from the identity, and the product of
  the identity with a transform that has an infinite entry is not that transform, since
  \<open>0 * inf\<close> is NaN.  The constructor accepts such a transform.
\<close>

theorem chain_of_infinite_transform:
  "Transform_init (Some (of_rows infinite_scale)) = Inr \<lparr>matrix = infinite_scale\<rparr> \<and>
   chain [\<lparr>matrix = infinite_scale\<rparr>] =
     Inr \<lparr>matrix = [[PInf, Fin 0, Fin 0, Fin 0],
                    [NaN, Fin 1, Fin 0, Fin 0],
                    [NaN, Fin 0, Fin 1, Fin 0],
                    [NaN, Fin 0, Fin 0, Fin 1]]\<rparr> \<and>
   chain [\<lparr>matrix = infinite_scale\<rparr>] \<noteq> Inr \<lparr>matrix = infinite_scale\<rparr>"
  by (simp add: chain_def matmul_def np_matmul_def np_dot_def shape2_def infinite_scale_def
      eye4_def column_def upt_0_4 bind_exn_def Transform_of_def Transform_init_def of_rows_def)

text \<open>
  Claim C6, amended.  \<open>chain()\<close> is the identity transform; \<open>chain(t)\<close> is \<open>t\<close> when the
  entries of \<open>t\<close> are finite numbers; and \<open>chain(t1, t2, t3)\<close> is \<open>(t1 @ t2) @ t3\<close> when the
  entries of \<open>t1\<close> are finite numbers: the reduction runs from the left, with the identity
  as its seed, and the product of the seed with a finite transform is the transform itself.
  The transforms are those the constructor builds (shape \<open>(4, 4)\<close>).
\<close>

theorem chain_reduces_left_to_right:
  "chain [] = Inr \<lparr>matrix = eye4\<rparr> \<and>
   (shape2 (matrix t) = Some (4, 4) \<and> all_finite (matrix t) \<longrightarrow> chain [t] = Inr t) \<and>
   (shape2 (matrix t1) = Some (4, 4) \<and> all_finite (matrix t1) \<and>
    shape2 (matrix t2) = Some (4, 4) \<and> shape2 (matrix t3) = Some (4, 4) \<longrightarrow>
      (\<exists>t12 t123. matmul t1 (OtherTransform t2) = Inr t12 \<and>
                   matmul t12 (OtherTransform t3) = Inr t123 \<and>
                   chain [t1, t2, t3] = Inr t123))"
proof (intro conjI impI)
  show "chain [] = Inr \<lparr>matrix = eye4\<rparr>" by (rule chain_empty)
next
  assume "shape2 (matrix t) = Some (4, 4) \<and> all_finite (matrix t)"
  then show "chain [t] = Inr t" by (simp add: chain_Cons)
next
  assume h: "shape2 (matrix t1) = Some (4, 4) \<and> all_finite (matrix t1) \<and>
    shape2 (matrix t2) = Some (4, 4) \<and> shape2 (matrix t3) = Some (4, 4)"
  then obtain t12 where t12: "matmul t1 (OtherTransform t2) = Inr t12"
      "shape2 (matrix t12) = Some (4, 4)"
    using matmul_4x4 [of t1 t2] by blast
  with h obtain t123 where t123: "matmul t12 (OtherTransform t3) = Inr t123"
    using matmul_4x4 [of t12 t3] by blast
  have "chain [t1, t2, t3] = Inr t123"
    using h t12 t123 by (simp add: chain_Cons bind_exn_def)
  with t12 t123 show "\<exists>t12 t123. matmul t1 (OtherTransform t2) = Inr t12 \<and>
                   matmul t12 (OtherTransform t3) = Inr t123 \<and>
                   chain [t1, t2, t3] = Inr t123" by blast
qed

theorem chain_reduces_left_to_right_witness:
  "shape2 example_A = Some (4, 4) \<and> all_finite example_A \<and> shape2 example_B = Some (4, 4) \<and>
   chain [\<lparr>matrix = example_A\<rparr>] = Inr \<lparr>matrix = example_A\<rparr> \<and>
   chain [\<lparr>matrix = example_A\<rparr>, \<lparr>matrix = example_B\<rparr>, \<lparr>matrix = example_A\<rparr>] =
     Inr \<lparr>matrix = [[Fin 2, Fin 6, Fin 0, Fin 0],
                    [Fin 0, Fin 1, Fin 0, Fin 0],
                    [Fin 15, Fin 0, Fin 1, Fin 5],
                    [Fin 9, Fin 19, Fin 0, Fin 1]]\<rparr>"
proof -
  have a: "shape2 example_A = Some (4, 4)" by (simp add: example_A_def shape2_def)
  have b: "shape2 example_B = Some (4, 4)" by (simp add: example_B_def shape2_def)
  have f: "all_finite example_A" by (simp add: example_A_def all_finite_def)
  have ab: "matmul \<lparr>matrix = example_A\<rparr> (OtherTransform \<lparr>matrix = example_B\<rparr>) =
      Inr \<lparr>matrix = [[Fin 2, Fin 2, Fin 0, Fin 0],
                    [Fin 0, Fin 1, Fin 0, Fin 0],
                    [Fin 0, Fin 0, Fin 1, Fin 5],
                    [Fin 6, Fin 7, Fin 0, Fin 1]]\<rparr>"
    by (simp add: matmul_def np_matmul_def np_dot_def shape2_def example_A_def example_B_def
        column_def upt_0_4 bind_exn_def Transform_of_def Transform_init_def of_rows_def)
  have aba: "matmul \<lparr>matrix = [[Fin 2, Fin 2, Fin 0, Fin 0],
                    [Fin 0, Fin 1, Fin 0, Fin 0],
                    [Fin 0, Fin 0, Fin 1, Fin 5],
                    [Fin 6, Fin 7, Fin 0, Fin 1]]\<rparr> (OtherTransform \<lparr>matrix = example_A\<rparr>) =
      Inr \<lparr>matrix = [[Fin 2, Fin 6, Fin 0, Fin 0],
                    [Fin 0, Fin 1, Fin 0, Fin 0],
                    [Fin 15, Fin 0, Fin 1, Fin 5],
                    [Fin 9, Fin 19, Fin 0, Fin 1]]\<rparr>"
    by (simp add: matmul_def np_matmul_def np_dot_def shape2_def example_A_def
        column_def upt_0_4 bind_exn_def Transform_of_def Transform_init_def of_rows_def)
  from chain_reduces_left_to_right
         [of "\<lparr>matrix = example_A\<rparr>" "\<lparr>matrix = example_A\<rparr>" "\<lparr>matrix = example_B\<rparr>"
             "\<lparr>matrix = example_A\<rparr>"]
  show ?thesis using a b f ab aba by auto
qed

section \<open>Assignment to the fields of a Node\<close>

text \<open>
  Claim C3.  Assigning to \<open>opacity\<close> a float outside \<open>[0, 1]\<close> (for example 1.5 or -0.1)
  fails with a validation error, and the node is left as it was: the opacity keeps its prior
  value, nothing else changes and no backend is called.
\<close>

theorem opacity_out_of_range_rejected:
  assumes "\<not> (fle (Fin 0) x \<and> fle x (Fin 1))"
  shows "Node_setattr self F_opacity (PFloat x) = (self, Inl (ValidationError ''opacity''))"
proof -
  have "validate_field F_opacity (PFloat x) = Inl (ValidationError ''opacity'')"
    using assms by (auto simp: validate_field_def)
  then show ?thesis
    by (simp add: Node_setattr_def ModelBase_setattr_def default_Config_def bind_exn_def)
qed

theorem opacity_out_of_range_rejected_witness:
  "\<not> (fle (Fin 0) (Fin (3 / 2)) \<and> fle (Fin (3 / 2)) (Fin 1)) \<and>
   Node_setattr Node_init F_opacity (PFloat (Fin (3 / 2))) =
     (Node_init, Inl (ValidationError ''opacity'')) \<and>
   \<not> (fle (Fin 0) (Fin (- 1 / 10)) \<and> fle (Fin (- 1 / 10)) (Fin 1)) \<and>
   Node_setattr Node_init F_opacity (PFloat (Fin (- 1 / 10))) =
     (Node_init, Inl (ValidationError ''opacity'')) \<and>
   field_values Node_init F_opacity = PFloat (Fin 1)"
proof -
  have h1: "\<not> (fle (Fin 0) (Fin (3 / 2)) \<and> fle (Fin (3 / 2)) (Fin 1))" by simp
  have h2: "\<not> (fle (Fin 0) (Fin (- 1 / 10)) \<and> fle (Fin (- 1 / 10)) (Fin 1))" by simp
  show ?thesis
    using h1 h2 opacity_out_of_range_rejected [OF h1, of Node_init]
      opacity_out_of_range_rejected [OF h2, of Node_init]
    by (simp add: Node_init_def)
qed

text \<open>
  Claim C1.  An assignment of a valid value to a field of a Node without a backend
  succeeds, stores the value and calls nothing (there is still no backend).  With a backend
  attached, the assignment stores the value and the backend receives exactly one more call:
  the setter named for the field (\<open>_viz_set_order\<close> for \<open>order\<close>), with the new value as its
  argument; the assignment succeeds unless that setter raises.
\<close>

theorem setattr_dispatch:
  assumes "validate_field f v = Inr v'"
  shows "(backend self = None \<longrightarrow>
            Node_setattr self f v =
              (self\<lparr>field_values := (field_values self)(f := v')\<rparr>, Inr ())) \<and>
         (backend self = Some b \<longrightarrow>
            Node_setattr self f v =
              (self\<lparr>field_values := (field_values self)(f := v'),
                     backend := Some (b\<lparr>calls := calls b @ [(setter_name f, v')]\<rparr>)\<rparr>,
               case raises b (setter_name f) v' of None \<Rightarrow> Inr () | Some e \<Rightarrow> Inl e))"
  using assms
  by (auto simp: Node_setattr_def ModelBase_setattr_def default_Config_def bind_exn_def
      backend_call_def split: option.splits)

theorem setattr_dispatch_witness:
  "validate_field F_visible (PBool False) = Inr (PBool False) \<and>
   backend Node_init = None \<and>
   Node_setattr Node_init F_visible (PBool False) =
     (Node_init\<lparr>field_values := (field_values Node_init)(F_visible := PBool False)\<rparr>, Inr ()) \<and>
   validate_field F_order (PInt 5) = Inr (PInt 5) \<and>
   backend (attach recording_backend Node_init) = Some recording_backend \<and>
   Node_setattr (attach recording_backend Node_init) F_order (PInt 5) =
     (Node_init\<lparr>field_values := (field_values Node_init)(F_order := PInt 5),
                backend := Some (recording_backend\<lparr>calls := [(''_viz_set_order'', PInt 5)]\<rparr>)\<rparr>,
      Inr ())"
proof -
  have v1: "validate_field F_visible (PBool False) = Inr (PBool False)"
    by (simp add: validate_field_def)
  have v2: "validate_field F_order (PInt 5) = Inr (PInt 5)"
    by (simp add: validate_field_def)
  have b1: "backend Node_init = None" by (simp add: Node_init_def)
  have b2: "backend (attach recording_backend Node_init) = Some recording_backend"
    by (simp add: attach_def)
  show ?thesis
    using v1 v2 b1 b2 setattr_dispatch [OF v1, of Node_init]
      setattr_dispatch [OF v2, of "attach recording_backend Node_init" recording_backend]
    by (simp add: attach_def recording_backend_def setter_name_def)
qed

section \<open>Rounding\<close>

lemma round_half_even_error: "\<bar>of_int (round_half_even s) - s\<bar> \<le> 1 / 2"
  unfolding round_half_even_def Let_def by (auto simp: abs_le_iff)

lemma round_half_even_of_int [simp]: "round_half_even (of_int n) = n"
  by (simp add: round_half_even_def)

lemma fl64_zero [simp]: "fl64 0 = 0"
  by (simp add: fl64_def)

lemma fl64_error: "\<bar>fl64 x - x\<bar> \<le> \<bar>x\<bar> / 2 ^ 53"
proof (cases "x = 0")
  case True
  then show ?thesis by simp
next
  case False
  define e where "e = \<lfloor>log 2 \<bar>x\<bar>\<rfloor>"
  define u :: real where "u = 2 powr of_int (e - 52)"
  have upos: "0 < u" by (simp add: u_def)
  have fl: "fl64 x = of_int (round_half_even (x / u)) * u"
    using False by (simp add: fl64_def Let_def u_def e_def)
  have "2 powr of_int e \<le> \<bar>x\<bar>"
    using False floor_log_eq_powr_iff [of "\<bar>x\<bar>" 2 e] by (simp add: e_def)
  moreover have "2 powr of_int e = u * 2 ^ 52"
    by (simp add: u_def powr_diff)
  ultimately have ux: "u * 2 ^ 52 \<le> \<bar>x\<bar>" by simp
  have "fl64 x - x = (of_int (round_half_even (x / u)) - x / u) * u"
    using upos by (simp add: fl field_simps)
  then have "\<bar>fl64 x - x\<bar> = \<bar>of_int (round_half_even (x / u)) - x / u\<bar> * u"
    using upos by (simp add: abs_mult)
  also have "\<dots> \<le> (1 / 2) * u"
    using round_half_even_error [of "x / u"] upos by (intro mult_right_mono) auto
  also have "\<dots> = (u * 2 ^ 52) / 2 ^ 53" by simp
  also have "\<dots> \<le> \<bar>x\<bar> / 2 ^ 53" using ux by (intro divide_right_mono) auto
  finally show ?thesis .
qed

lemma fl64_bracket:
  assumes "2 powr of_int k \<le> \<bar>x\<bar>" "\<bar>x\<bar> < 2 powr of_int (k + 1)"
  shows "fl64 x = of_int (round_half_even (x / 2 powr of_int (k - 52))) * 2 powr of_int (k - 52)"
proof -
  have pos: "0 < \<bar>x\<bar>" using assms(1) by (smt (verit) powr_gt_zero)
  then have "x \<noteq> 0" by auto
  moreover have "\<lfloor>log 2 \<bar>x\<bar>\<rfloor> = k"
    using floor_log_eq_powr_iff [of "\<bar>x\<bar>" 2 k] pos assms by simp
  ultimately show ?thesis by (simp add: fl64_def Let_def)
qed

lemma fl64_dyadic:
  assumes "\<bar>m\<bar> < 2 ^ 53"
  shows "fl64 (of_int m * 2 powr of_int k) = of_int m * 2 powr of_int k"
proof (cases "m = 0")
  case True
  then show ?thesis by simp
next
  case False
  define x :: real where "x = of_int m * 2 powr of_int k"
  define e where "e = \<lfloor>log 2 \<bar>x\<bar>\<rfloor>"
  have xabs: "\<bar>x\<bar> = of_int \<bar>m\<bar> * 2 powr of_int k" by (simp add: x_def abs_mult)
  have xpos: "0 < \<bar>x\<bar>" using False by (simp add: x_def)
  have "of_int \<bar>m\<bar> < (2::real) ^ 53" using assms by (metis of_int_less_numeral_power_cancel_iff)
  then have "\<bar>x\<bar> < 2 ^ 53 * 2 powr of_int k"
    unfolding xabs by (intro mult_strict_right_mono) auto
  also have "\<dots> = 2 powr of_int (k + 53)" by (simp add: powr_add)
  finally have up: "\<bar>x\<bar> < 2 powr of_int (k + 53)" .
  have "2 powr of_int e \<le> \<bar>x\<bar>"
    using xpos floor_log_eq_powr_iff [of "\<bar>x\<bar>" 2 e] by (simp add: e_def)
  with up have "(2::real) powr of_int e < 2 powr of_int (k + 53)" by linarith
  then have "e < k + 53" by simp
  then have j: "0 \<le> k - (e - 52)" by simp
  define j where "j = nat (k - (e - 52))"
  have kj: "of_int k = of_int (e - 52) + real j" using j by (simp add: j_def)
  have "x / 2 powr of_int (e - 52) = of_int m * 2 powr real j"
    unfolding x_def kj by (simp add: powr_add)
  also have "\<dots> = of_int (m * 2 ^ j)" by (simp add: powr_realpow)
  finally have q: "x / 2 powr of_int (e - 52) = of_int (m * 2 ^ j)" .
  have "fl64 x = of_int (round_half_even (x / 2 powr of_int (e - 52))) * 2 powr of_int (e - 52)"
    using xpos by (auto simp: fl64_def Let_def e_def)
  also have "\<dots> = of_int (m * 2 ^ j) * 2 powr of_int (e - 52)"
    by (simp only: q round_half_even_of_int)
  also have "\<dots> = x / 2 powr of_int (e - 52) * 2 powr of_int (e - 52)" unfolding q ..
  also have "\<dots> = x" by simp
  finally show ?thesis by (simp add: x_def)
qed

lemma fl64_dyadic_div:
  assumes "\<bar>m\<bar> < 2 ^ 53"
  shows "fl64 (of_int m / 2 ^ n) = of_int m / 2 ^ n"
proof -
  have e: "of_int m * (2::real) powr of_int (- int n) = of_int m / 2 ^ n"
    by (simp add: powr_minus powr_realpow field_simps)
  show ?thesis using fl64_dyadic [OF assms, of "- int n"] unfolding e .
qed

lemma fl64_dyadic_mul:
  assumes "\<bar>m\<bar> < 2 ^ 53"
  shows "fl64 (of_int m * 2 ^ n) = of_int m * 2 ^ n"
proof -
  have e: "(2::real) powr of_int (int n) = 2 ^ n"
    by (simp add: powr_realpow)
  show ?thesis using fl64_dyadic [OF assms, of "int n"] unfolding e .
qed

lemma fl64_of_int:
  assumes "\<bar>m\<bar> < 2 ^ 53"
  shows "fl64 (of_int m) = of_int m"
  using fl64_dyadic_mul [OF assms, of 0] by simp

lemma powr_int_nat: "(2::real) powr of_int (int n) = 2 ^ n"
  by (simp add: powr_realpow)

lemma powr_int_neg_nat: "(2::real) powr of_int (- int n) = 1 / 2 ^ n"
  by (simp add: powr_minus powr_realpow inverse_eq_divide)

lemma fl64_small:
  assumes "1 / 2 ^ Suc n \<le> \<bar>x\<bar>" "\<bar>x\<bar> < 1 / 2 ^ n"
  shows "fl64 x = of_int (round_half_even (x * 2 ^ (n + 53))) / 2 ^ (n + 53)"
proof -
  have b: "- int (Suc n) + 1 = - int n" by simp
  have c: "- int (Suc n) - 52 = - int (n + 53)" by simp
  have lo: "2 powr of_int (- int (Suc n)) \<le> \<bar>x\<bar>"
    using assms(1) by (simp only: powr_int_neg_nat)
  have hi: "\<bar>x\<bar> < 2 powr of_int (- int (Suc n) + 1)"
    using assms(2) by (simp only: b powr_int_neg_nat)
  from fl64_bracket [OF lo hi]
  have "fl64 x = of_int (round_half_even (x / (1 / 2 ^ (n + 53)))) * (1 / 2 ^ (n + 53))"
    by (simp only: c powr_int_neg_nat)
  then show ?thesis by simp
qed

lemma fl64_large:
  assumes "2 ^ (n + 52) \<le> \<bar>x\<bar>" "\<bar>x\<bar> < 2 ^ (n + 53)"
  shows "fl64 x = of_int (round_half_even (x / 2 ^ n)) * 2 ^ n"
proof -
  have b: "int (n + 52) + 1 = int (n + 53)" by simp
  have c: "int (n + 52) - 52 = int n" by simp
  have lo: "2 powr of_int (int (n + 52)) \<le> \<bar>x\<bar>"
    using assms(1) by (simp only: powr_int_nat)
  have hi: "\<bar>x\<bar> < 2 powr of_int (int (n + 52) + 1)"
    using assms(2) by (simp only: b powr_int_nat)
  from fl64_bracket [OF lo hi]
  show ?thesis by (simp only: c powr_int_nat)
qed

text \<open>The values the theorems below need.\<close>

lemma fl64_2_53_plus_1: "fl64 (2 ^ 53 + 1) = 2 ^ 53"
proof -
  have "fl64 (2 ^ 53 + 1) = of_int (round_half_even ((2 ^ 53 + 1) / 2 ^ 1)) * 2 ^ 1"
    by (rule fl64_large) simp_all
  also have "round_half_even ((2 ^ 53 + 1) / 2 ^ 1) = 2 ^ 52"
    by (simp add: round_half_even_def Let_def)
  finally show ?thesis by simp
qed

lemma fl64_rtol: "fl64 (5902958103587057 / 2 ^ 69) = 5902958103587057 / 2 ^ 69"
  using fl64_dyadic_div [of 5902958103587057 69] by simp

lemma fl64_atol: "fl64 (3022314549036573 / 2 ^ 78) = 3022314549036573 / 2 ^ 78"
  using fl64_dyadic_div [of 3022314549036573 78] by simp

lemma fl64_tol1:
  "fl64 (3022314549036573 / 2 ^ 78 + 5902958103587057 / 2 ^ 69) = 1477215265422661 / 2 ^ 67"
proof -
  let ?x = "3022314549036573 / 2 ^ 78 + 5902958103587057 / 2 ^ 69 :: real"
  have "fl64 ?x = of_int (round_half_even (?x * 2 ^ (16 + 53))) / 2 ^ (16 + 53)"
    by (rule fl64_small) simp_all
  also have "round_half_even (?x * 2 ^ (16 + 53)) = 5908861061690644"
    by (simp add: round_half_even_def Let_def)
  finally show ?thesis by simp
qed

section \<open>The null transform\<close>

lemma tolerance_at_0 [simp]: "fl64 atol = 3022314549036573 / 2 ^ 78"
  unfolding atol_def by (rule fl64_atol)

lemma tolerance_at_1 [simp]: "fl64 (atol + fl64 rtol) = 1477215265422661 / 2 ^ 67"
proof -
  have "fl64 rtol = rtol" unfolding rtol_def by (rule fl64_rtol)
  then have "fl64 (atol + fl64 rtol) = fl64 (atol + rtol)" by (simp only:)
  also have "\<dots> = 1477215265422661 / 2 ^ 67" unfolding atol_def rtol_def by (rule fl64_tol1)
  finally show ?thesis .
qed

lemma isclose_0_iff:
  "isclose x (Fin 0) \<longleftrightarrow> (\<exists>r. x = Fin r \<and> \<bar>fl64 r\<bar> \<le> 3022314549036573 / 2 ^ 78)"
  by (cases x) simp_all

lemma isclose_1_iff:
  "isclose x (Fin 1) \<longleftrightarrow> (\<exists>r. x = Fin r \<and> \<bar>fl64 (r - 1)\<bar> \<le> 1477215265422661 / 2 ^ 67)"
  by (cases x) simp_all

lemma all_less_4: "(\<forall>i<4. P i) \<longleftrightarrow> P 0 \<and> P 1 \<and> P 2 \<and> P (3::nat)"
  by (auto simp: eval_nat_numeral less_Suc_eq)

lemma fl64_2_pow_m30: "fl64 (1 / 1073741824) = 1 / 1073741824"
proof -
  have "fl64 (of_int 1 / 2 ^ 30) = of_int 1 / 2 ^ 30" by (rule fl64_dyadic_div) simp
  then show ?thesis by simp
qed

lemma fl64_2: "fl64 2 = 2"
proof -
  have "fl64 (of_int 2) = of_int 2" by (rule fl64_of_int) simp
  then show ?thesis by simp
qed

text \<open>
  Claim C5, as stated, fails: \<open>is_null\<close> compares with \<open>np.allclose\<close>, so a matrix that is
  not the identity but within its tolerance is null as well.
\<close>

theorem near_identity_is_null:
  "shape2 near_identity = Some (4, 4) \<and>
   Transform_init (Some (of_rows near_identity)) = Inr \<lparr>matrix = near_identity\<rparr> \<and>
   near_identity \<noteq> eye4 \<and>
   is_null \<lparr>matrix = near_identity\<rparr>"
  by (simp add: near_identity_def eye4_def shape2_def Transform_init_def of_rows_def is_null_def
      np_allclose_def fl64_2_pow_m30)

text \<open>
  Claim C5, amended.  \<open>Transform().is_null()\<close> is True, and for a 4x4 matrix \<open>M\<close>,
  \<open>Transform(M).is_null()\<close> is False exactly when some entry \<open>M[i][j]\<close> is not a number whose
  float64 difference from the entry \<open>I[i][j]\<close> of the identity is, in magnitude, at most the
  tolerance that \<open>np.allclose\<close> computes in float64: the float64 number \<open>1e-08\<close> off the
  diagonal, and the float64 sum of \<open>1e-08\<close> and \<open>1e-05\<close> on it.
\<close>

theorem is_null_iff_within_tolerance:
  "is_null \<lparr>matrix = eye4\<rparr> \<and>
   (shape2 M = Some (4, 4) \<longrightarrow>
      (is_null \<lparr>matrix = M\<rparr> \<longleftrightarrow>
         (\<forall>i<4. \<forall>j<4. \<exists>r. M ! i ! j = Fin r \<and>
             \<bar>fl64 (r - (if i = j then 1 else 0))\<bar>
               \<le> (if i = j then 1477215265422661 / 2 ^ 67 else 3022314549036573 / 2 ^ 78))))"
proof (intro conjI impI)
  show "is_null \<lparr>matrix = eye4\<rparr>"
    by (simp add: is_null_def np_allclose_def eye4_def)
next
  assume sh: "shape2 M = Some (4, 4)"
  from shape2_4x4_rows [OF sh] obtain r0 r1 r2 r3 where
    m: "M = [r0, r1, r2, r3]" and len: "length r0 = 4" "length r1 = 4" "length r2 = 4" "length r3 = 4"
    by blast
  from length_4_explicit [OF len(1)] obtain a0 a1 a2 a3 where r0: "r0 = [a0, a1, a2, a3]" by blast
  from length_4_explicit [OF len(2)] obtain b0 b1 b2 b3 where r1: "r1 = [b0, b1, b2, b3]" by blast
  from length_4_explicit [OF len(3)] obtain c0 c1 c2 c3 where r2: "r2 = [c0, c1, c2, c3]" by blast
  from length_4_explicit [OF len(4)] obtain d0 d1 d2 d3 where r3: "r3 = [d0, d1, d2, d3]" by blast
  show "is_null \<lparr>matrix = M\<rparr> \<longleftrightarrow>
         (\<forall>i<4. \<forall>j<4. \<exists>r. M ! i ! j = Fin r \<and>
             \<bar>fl64 (r - (if i = j then 1 else 0))\<bar>
               \<le> (if i = j then 1477215265422661 / 2 ^ 67 else 3022314549036573 / 2 ^ 78))"
    unfolding m r0 r1 r2 r3
    by (simp add: is_null_def np_allclose_def eye4_def all_less_4 isclose_0_iff isclose_1_iff)
qed

theorem is_null_iff_within_tolerance_witness:
  "shape2 example_A = Some (4, 4) \<and> example_A ! 0 ! 1 = Fin 2 \<and>
   \<not> is_null \<lparr>matrix = example_A\<rparr> \<and> is_null \<lparr>matrix = eye4\<rparr>"
proof -
  have a: "shape2 example_A = Some (4, 4)" by (simp add: example_A_def shape2_def)
  have e: "example_A ! 0 ! 1 = Fin 2" by (simp add: example_A_def)
  have "\<not> (\<forall>i<4. \<forall>j<4. \<exists>r. example_A ! i ! j = Fin r \<and>
             \<bar>fl64 (r - (if i = j then 1 else 0))\<bar>
               \<le> (if i = j then 1477215265422661 / 2 ^ 67 else 3022314549036573 / 2 ^ 78))"
    by (simp add: all_less_4 example_A_def fl64_2)
  with is_null_iff_within_tolerance [of example_A] a e show ?thesis by blast
qed

text \<open>
  The boundary is the float64 number \<open>1e-08\<close>, which is a little more than \<open>1 / 10 ^ 8\<close>: a
  matrix with that entry off the diagonal is still null.
\<close>

lemma is_null_at_tolerance:
  "3022314549036573 / 2 ^ 78 > (1 / 10 ^ 8 :: real) \<and>
   is_null \<lparr>matrix = [[Fin 1, Fin (3022314549036573 / 2 ^ 78), Fin 0, Fin 0],
     [Fin 0, Fin 1, Fin 0, Fin 0],
     [Fin 0, Fin 0, Fin 1, Fin 0],
     [Fin 0, Fin 0, Fin 0, Fin 1]]\<rparr>"
proof -
  have "fl64 (3022314549036573 / 302231454903657293676544) = 3022314549036573 / 302231454903657293676544"
    using fl64_atol by simp
  then show ?thesis
  by (simp add: is_null_def np_allclose_def eye4_def)
qed

section \<open>Translation and mapping\<close>

lemma fl64_one [simp]: "fl64 1 = 1"
proof -
  have "fl64 (of_int 1) = of_int 1" by (rule fl64_of_int) simp
  then show ?thesis by simp
qed

lemma fl64_numeral: "(numeral w :: int) < 2 ^ 53 \<Longrightarrow> fl64 (numeral w) = numeral w"
  using fl64_of_int [of "numeral w"] by simp

text \<open>
  Claim C8, as stated, fails: \<open>map\<close> promotes the origin to the homogeneous row
  \<open>[0, 0, 0, 1]\<close> and returns the flattened product, a vector of four components, which
  is not the 3-vector \<open>v\<close>.
\<close>

theorem translated_origin_is_4_vector:
  "bind_exn (Transform_init None) (\<lambda>t.
     bind_exn (translated t (Vec [Fin 1, Fin 2, Fin 3])) (\<lambda>t'.
       map_tf t' (Vec [Fin 0, Fin 0, Fin 0])))
   = Inr (Vec [Fin 1, Fin 2, Fin 3, Fin 1]) \<and>
   Vec [Fin 1, Fin 2, Fin 3, Fin 1] \<noteq> Vec [Fin 1, Fin 2, Fin 3]"
  by (simp add: Transform_init_def bind_exn_def translated_def as_vec4_def default_position_def
      row0_3_def translate_def dot_def np_dot_def shape2_def eye4_def column_def upt_0_4
      Transform_of_def of_rows_def map_tf_def arg_to_vec4_def fl64_numeral)

lemma translated_then_map:
  "bind_exn (Transform_init None) (\<lambda>t.
     bind_exn (translated t (Vec [Fin x, Fin y, Fin z])) (\<lambda>t'.
       map_tf t' (Vec [Fin 0, Fin 0, Fin 0])))
   = Inr (Vec [Fin (fl64 x), Fin (fl64 y), Fin (fl64 z), Fin 1])"
  by (simp add: Transform_init_def bind_exn_def translated_def as_vec4_def default_position_def
      row0_3_def translate_def dot_def np_dot_def shape2_def eye4_def column_def upt_0_4
      Transform_of_def of_rows_def map_tf_def arg_to_vec4_def)

text \<open>
  Claim C8, amended.  For every 3-vector \<open>v = (x, y, z)\<close> of numbers (Python integers or
  floats) within the float64 range, \<open>Transform().translated(v).map((0, 0, 0))\<close> is the
  homogeneous vector of four components whose first three are the components of \<open>v\<close>
  converted to float64, and whose fourth is 1.  The first three are approximately \<open>v\<close>: each
  is within the relative error \<open>2 ** -53\<close> of its component of \<open>v\<close> (and equal to it when that is
  a float64 number, which the conversion leaves as it is).
\<close>

theorem translated_maps_origin:
  assumes "\<bar>x\<bar> \<le> float64_max" "\<bar>y\<bar> \<le> float64_max" "\<bar>z\<bar> \<le> float64_max"
  shows "bind_exn (Transform_init None) (\<lambda>t.
           bind_exn (translated t (Vec [Fin x, Fin y, Fin z])) (\<lambda>t'.
             map_tf t' (Vec [Fin 0, Fin 0, Fin 0])))
         = Inr (Vec ([Fin (fl64 x), Fin (fl64 y), Fin (fl64 z)] @ [Fin 1])) \<and>
         \<bar>fl64 x - x\<bar> \<le> \<bar>x\<bar> / 2 ^ 53 \<and>
         \<bar>fl64 y - y\<bar> \<le> \<bar>y\<bar> / 2 ^ 53 \<and>
         \<bar>fl64 z - z\<bar> \<le> \<bar>z\<bar> / 2 ^ 53"
  using translated_then_map [of x y z] fl64_error [of x] fl64_error [of y] fl64_error [of z]
  by simp

theorem translated_maps_origin_witness:
  "\<bar>2 ^ 53 + 1\<bar> \<le> float64_max \<and> \<bar>0\<bar> \<le> float64_max \<and>
   bind_exn (Transform_init None) (\<lambda>t.
     bind_exn (translated t (Vec [Fin (2 ^ 53 + 1), Fin 0, Fin 0])) (\<lambda>t'.
       map_tf t' (Vec [Fin 0, Fin 0, Fin 0])))
   = Inr (Vec [Fin (2 ^ 53), Fin 0, Fin 0, Fin 1])"
proof -
  have a: "\<bar>2 ^ 53 + 1\<bar> \<le> float64_max" by (simp add: float64_max_def)
  have b: "\<bar>0\<bar> \<le> float64_max" by (simp add: float64_max_def)
  have f: "fl64 9007199254740993 = 9007199254740992" using fl64_2_53_plus_1 by simp
  from translated_maps_origin [OF a b b] a b show ?thesis
    by (simp add: f)
qed

section \<open>The rotation builder\<close>










lemma rotate_tf_quarter_turn:
  "rotate_tf (Fin 90) (Seq [Num (Fin 0), Num (Fin 0), Num (Fin 2)]) =
     Inr [[Fin 0, Fin 1, Fin 0, Fin 0],
          [Fin (- 1), Fin 0, Fin 0, Fin 0],
          [Fin 0, Fin 0, Fin 1, Fin 0],
          [Fin 0, Fin 0, Fin 0, Fin 1]]"
  by (simp add: rotate_tf_def np_radians_def linalg_norm_def fsub_def bind_exn_def Let_def
      np_T_def column_def upt_0_4 cos_pi_half list_all_iff fl64_2)



section \<open>Immutability\<close>

text \<open>Heaps only grow.\<close>

lemma heap_extends_refl: "heap_extends h h"
  by (simp add: heap_extends_def)

lemma take_prefix_trans:
  assumes "take (length xs) ys = xs" "take (length ys) zs = ys" "length xs \<le> length ys"
  shows "take (length xs) zs = xs"
proof -
  have "take (length xs) zs = take (length xs) (take (length ys) zs)"
    using assms(3) by (simp add: min_def)
  with assms(1,2) show ?thesis by simp
qed

lemma heap_extends_trans:
  assumes "heap_extends a b" "heap_extends b c"
  shows "heap_extends a c"
  using assms take_prefix_trans [of "buffers a" "buffers b" "buffers c"]
    take_prefix_trans [of "objects a" "objects b" "objects c"]
  by (simp add: heap_extends_def)

lemma take_nth_eq:
  assumes "take n ys = xs" "i < length xs"
  shows "ys ! i = xs ! i"
  using assms by (metis length_take min_less_iff_conj nth_take)

lemma deref_extends:
  assumes "heap_extends h h'" "r < length (objects h)" "buf (objects h ! r) < length (buffers h)"
  shows "deref h' r = deref h r"
proof -
  have o: "objects h' ! r = objects h ! r"
    using assms(1,2) take_nth_eq [of "length (objects h)" "objects h'" "objects h" r]
    by (simp add: heap_extends_def)
  have b: "buffers h' ! buf (objects h ! r) = buffers h ! buf (objects h ! r)"
    using assms(1,3)
      take_nth_eq [of "length (buffers h)" "buffers h'" "buffers h" "buf (objects h ! r)"]
    by (simp add: heap_extends_def)
  show ?thesis by (simp add: deref_def read_array_def o b)
qed

lemma wf_heap_buf: "wf_heap h \<Longrightarrow> r < length (objects h) \<Longrightarrow> buf (objects h ! r) < length (buffers h)"
  by (simp add: wf_heap_def list_all_length)

lemma Transform_new_fresh:
  assumes "wf_heap h" "\<And>a. arg = View a \<Longrightarrow> buf a < length (buffers h)"
  shows "fresh_result h (Transform_new h arg)"
proof (cases arg)
  case (New_array m)
  show ?thesis
  proof (cases "Transform_of m")
    case (Inl e)
    with New_array assms(1) show ?thesis
      by (simp add: Transform_new_def fresh_result_def heap_extends_refl)
  next
    case (Inr t)
    from Transform_of_Inr [OF Inr] have "shape2 m = Some (4, 4)" by simp
    with New_array Inr assms(1) show ?thesis
      by (auto simp: Transform_new_def fresh_result_def heap_extends_def wf_heap_def list_all_iff)
  qed
next
  case (View a)
  show ?thesis
  proof (cases "Transform_of (read_array h a)")
    case (Inl e)
    with View assms(1) show ?thesis
      by (simp add: Transform_new_def fresh_result_def heap_extends_refl)
  next
    case (Inr t)
    with View assms(1) assms(2) [OF View] show ?thesis
      by (auto simp: Transform_new_def fresh_result_def heap_extends_def wf_heap_def list_all_iff)
  qed
qed

lemma Transform_new_array_fresh:
  "wf_heap h \<Longrightarrow> fresh_result h (Transform_new h (New_array m))"
  by (rule Transform_new_fresh) simp_all

lemma fresh_result_error: "wf_heap h \<Longrightarrow> fresh_result h (h, Inl e)"
  by (simp add: fresh_result_def heap_extends_refl)

text \<open>
  Well-formed heaps are the ones a program builds: the empty heap is well formed, and the
  constructor, like every method below, takes a well-formed heap to a well-formed one.
\<close>

lemma Transform_init_shape:
  assumes "Transform_init arg = Inr t"
  shows "shape2 (matrix t) = Some (4, 4)"
proof (cases arg)
  case None
  with assms show ?thesis by (auto simp: Transform_init_def eye4_def shape2_def)
next
  case (Some a)
  with assms have sh: "shape_of a = Some [4, 4]"
    by (auto simp: Transform_init_def split: option.splits if_splits)
  from Transform_init_4x4 [OF sh] Some assms show ?thesis by auto
qed

lemma wf_empty_heap: "wf_heap empty_heap"
  by (simp add: wf_heap_def empty_heap_def)

lemma Transform_create_fresh:
  assumes "wf_heap h"
  shows "fresh_result h (Transform_create h arg)"
proof (cases "Transform_init arg")
  case (Inl e)
  with assms show ?thesis by (simp add: Transform_create_def fresh_result_error)
next
  case (Inr t)
  from Transform_init_shape [OF Inr] Inr assms show ?thesis
    by (auto simp: Transform_create_def fresh_result_def heap_extends_def wf_heap_def list_all_iff)
qed

lemma h_dot_fresh: "wf_heap h \<Longrightarrow> fresh_result h (h_dot h self other)"
  by (cases "np_dot (matrix (deref h self)) (operand_matrix h other)")
     (simp_all add: h_dot_def fresh_result_error Transform_new_array_fresh)

lemma h_matmul_fresh: "wf_heap h \<Longrightarrow> fresh_result h (h_matmul h self other)"
  by (cases "np_matmul (matrix (deref h self)) (operand_matrix h other)")
     (simp_all add: h_matmul_def fresh_result_error Transform_new_array_fresh)

lemma h_inv_fresh: "wf_heap h \<Longrightarrow> fresh_result h (h_inv li h self)"
  by (cases "li (matrix (deref h self))")
     (simp_all add: h_inv_def fresh_result_error Transform_new_array_fresh)

lemma h_T_fresh:
  assumes "wf_heap h" "self < length (objects h)"
  shows "fresh_result h (h_T h self)"
  unfolding h_T_def
  by (rule Transform_new_fresh [OF assms(1)]) (use wf_heap_buf [OF assms] in auto)

lemma fresh_hbind:
  assumes "fresh_result h m"
    and "\<And>h1 x. wf_heap h1 \<Longrightarrow> fresh_result h1 (f h1 x)"
  shows "fresh_result h (hbind m f)"
proof (cases m)
  case (Pair h1 r)
  show ?thesis
  proof (cases r)
    case (Inl e)
    with Pair assms(1) show ?thesis by (simp add: hbind_def)
  next
    case (Inr x)
    from assms(1) Pair Inr have e1: "heap_extends h h1" and w1: "wf_heap h1"
      by (simp_all add: fresh_result_def)
    obtain h2 r2 where f: "f h1 x = (h2, r2)" by (cases "f h1 x")
    from assms(2) [OF w1, of x] f have e2: "heap_extends h1 h2" and w2: "wf_heap h2"
      and n2: "case r2 of Inl e \<Rightarrow> True | Inr new \<Rightarrow> length (objects h1) \<le> new \<and> new < length (objects h2)"
      by (simp_all add: fresh_result_def)
    from e1 have "length (objects h) \<le> length (objects h1)" by (simp add: heap_extends_def)
    with n2 have "case r2 of Inl e \<Rightarrow> True | Inr new \<Rightarrow> length (objects h) \<le> new \<and> new < length (objects h2)"
      by (cases r2) auto
    with heap_extends_trans [OF e1 e2] w2 Pair Inr f show ?thesis
      by (simp add: hbind_def fresh_result_def)
  qed
qed

lemma h_translated_fresh: "wf_heap h \<Longrightarrow> fresh_result h (h_translated h self pos)"
  by (cases "bind_exn (as_vec4 pos default_position) (\<lambda>pos. bind_exn (row0_3 pos) translate)")
     (simp_all add: h_translated_def fresh_result_error h_dot_fresh)

lemma h_scaled_fresh: "wf_heap h \<Longrightarrow> fresh_result h (h_scaled h self sf center)"
  unfolding h_scaled_def
  by (auto simp: fresh_result_error h_dot_fresh split: sum.splits)

lemma h_rotated_fresh:
  assumes "wf_heap h"
  shows "fresh_result h (h_rotated h self angle axis about)"
proof (cases about)
  case None
  with assms show ?thesis
    by (cases "rotate_tf angle axis") (simp_all add: h_rotated_def fresh_result_error h_dot_fresh)
next
  case (Some ab)
  show ?thesis
  proof (cases "bind_exn (as_vec4 ab default_position) row0_3")
    case (Inl e)
    with Some assms show ?thesis by (simp add: h_rotated_def fresh_result_error)
  next
    case (Inr a3)
    have inner: "fresh_result h1
        (case rotate_tf angle axis of
           Inl e \<Rightarrow> (h1, Inl e)
         | Inr r \<Rightarrow> hbind (h_dot h1 t1 (Other_raw r)) (\<lambda>h2 t2. h_translated h2 t2 (Vec a3)))"
      if "wf_heap h1" for h1 t1
      using that
      by (cases "rotate_tf angle axis")
         (simp_all add: fresh_result_error fresh_hbind h_dot_fresh h_translated_fresh)
    from Some Inr show ?thesis
      by (simp add: h_rotated_def fresh_hbind [OF h_translated_fresh [OF assms]] inner)
  qed
qed

lemma run_fresh:
  assumes "wf_heap h" "self < length (objects h)"
  shows "fresh_result h (run li h self m)"
  using assms
  by (cases m)
     (simp_all add: h_dot_fresh h_matmul_fresh h_T_fresh h_inv_fresh h_translated_fresh
        h_rotated_fresh h_scaled_fresh)

lemma Transform_frozen:
  "Transform_setattr t v = Inl (ImmutabilityError ''object is immutable'')"
  by (simp add: Transform_setattr_def ModelBase_setattr_def Transform_Config_def)

text \<open>The methods on the heap compute what the methods on values compute.\<close>

lemma agrees_error: "agrees (Inl e) (h, Inl e)"
  by (simp add: agrees_def)

lemma Transform_new_array_agrees:
  "agrees (Transform_of m) (Transform_new h (New_array m))"
proof (cases "Transform_of m")
  case (Inl e)
  then show ?thesis by (simp add: Transform_new_def agrees_def)
next
  case (Inr t)
  from Transform_of_Inr [OF Inr] have "t = \<lparr>matrix = m\<rparr>" by simp
  with Inr show ?thesis
    by (simp add: Transform_new_def agrees_def deref_def read_array_def)
qed

lemma Transform_new_view_agrees:
  "agrees (Transform_of (read_array h a)) (Transform_new h (View a))"
proof (cases "Transform_of (read_array h a)")
  case (Inl e)
  then show ?thesis by (simp add: Transform_new_def agrees_def)
next
  case (Inr t)
  from Transform_of_Inr [OF Inr] have "t = \<lparr>matrix = read_array h a\<rparr>" by simp
  with Inr show ?thesis
    by (simp add: Transform_new_def agrees_def deref_def read_array_def)
qed

lemma other_matrix_operand_value [simp]:
  "other_matrix (operand_value h other) = operand_matrix h other"
  by (cases other) simp_all

lemma h_dot_agrees: "agrees (dot (deref h self) (operand_value h other)) (h_dot h self other)"
  by (cases "np_dot (matrix (deref h self)) (operand_matrix h other)")
     (simp_all add: dot_def h_dot_def bind_exn_def agrees_error Transform_new_array_agrees)

lemma h_dot_raw_agrees: "agrees (dot (deref h self) (OtherArray m)) (h_dot h self (Other_raw m))"
  using h_dot_agrees [of h self "Other_raw m"] by simp

lemma h_matmul_agrees:
  "agrees (matmul (deref h self) (operand_value h other)) (h_matmul h self other)"
  by (cases "np_matmul (matrix (deref h self)) (operand_matrix h other)")
     (simp_all add: matmul_def h_matmul_def bind_exn_def agrees_error Transform_new_array_agrees)

lemma h_inv_agrees: "agrees (inv_tf li (deref h self)) (h_inv li h self)"
  by (cases "li (matrix (deref h self))")
     (simp_all add: inv_tf_def h_inv_def bind_exn_def agrees_error Transform_new_array_agrees)

lemma np_T_involution:
  assumes "shape2 b = Some (4, 4)"
  shows "np_T (np_T b) = b"
proof -
  from shape2_4x4_rows [OF assms] obtain r0 r1 r2 r3 where
    m: "b = [r0, r1, r2, r3]" and len: "length r0 = 4" "length r1 = 4" "length r2 = 4" "length r3 = 4"
    by blast
  from length_4_explicit [OF len(1)] obtain a0 a1 a2 a3 where r0: "r0 = [a0, a1, a2, a3]" by blast
  from length_4_explicit [OF len(2)] obtain b0 b1 b2 b3 where r1: "r1 = [b0, b1, b2, b3]" by blast
  from length_4_explicit [OF len(3)] obtain c0 c1 c2 c3 where r2: "r2 = [c0, c1, c2, c3]" by blast
  from length_4_explicit [OF len(4)] obtain d0 d1 d2 d3 where r3: "r3 = [d0, d1, d2, d3]" by blast
  show ?thesis unfolding m r0 r1 r2 r3 by (simp add: np_T_def column_def upt_0_4)
qed

lemma h_T_agrees:
  assumes "wf_heap h" "self < length (objects h)"
  shows "agrees (T_tf (deref h self)) (h_T h self)"
proof -
  let ?a = "objects h ! self"
  have "buf ?a < length (buffers h)" by (rule wf_heap_buf [OF assms])
  with assms(1) have "shape2 (buffers h ! buf ?a) = Some (4, 4)"
    by (simp add: wf_heap_def list_all_length)
  then have "np_T (matrix (deref h self)) = read_array h (?a\<lparr>transposed := \<not> transposed ?a\<rparr>)"
    by (simp add: deref_def read_array_def np_T_involution)
  then show ?thesis
    using Transform_new_view_agrees [of h "?a\<lparr>transposed := \<not> transposed ?a\<rparr>"]
    by (simp add: T_tf_def h_T_def)
qed

lemma agrees_hbind:
  assumes "agrees p m" and "\<And>h1 x. agrees (g (deref h1 x)) (f h1 x)"
  shows "agrees (bind_exn p g) (hbind m f)"
proof (cases m)
  case (Pair h1 r)
  then show ?thesis
    using assms(1) assms(2) [of h1]
    by (cases r) (auto simp: agrees_def hbind_def bind_exn_def)
qed

lemma h_translated_agrees: "agrees (translated (deref h self) pos) (h_translated h self pos)"
proof (cases "as_vec4 pos default_position")
  case (Inl e)
  then show ?thesis by (simp add: translated_def h_translated_def bind_exn_def agrees_error)
next
  case p: (Inr p)
  show ?thesis
  proof (cases "row0_3 p")
    case (Inl e)
    with p show ?thesis by (simp add: translated_def h_translated_def bind_exn_def agrees_error)
  next
    case o: (Inr offset)
    show ?thesis
    proof (cases "translate offset")
      case (Inl e)
      with p o show ?thesis
        by (simp add: translated_def h_translated_def bind_exn_def agrees_error)
    next
      case (Inr m)
      with p o show ?thesis
        by (simp add: translated_def h_translated_def bind_exn_def h_dot_raw_agrees)
    qed
  qed
qed

lemma h_scaled_agrees: "agrees (scaled (deref h self) sf center) (h_scaled h self sf center)"
  unfolding scaled_def h_scaled_def bind_exn_def
  by (auto simp: agrees_error h_dot_raw_agrees split: sum.splits option.splits)

lemma h_rotated_agrees:
  "agrees (rotated (deref h self) angle axis about) (h_rotated h self angle axis about)"
proof (cases about)
  case None
  then show ?thesis
    by (cases "rotate_tf angle axis")
       (simp_all add: rotated_def h_rotated_def bind_exn_def agrees_error h_dot_raw_agrees)
next
  case (Some ab)
  show ?thesis
  proof (cases "as_vec4 ab default_position")
    case (Inl e)
    with Some show ?thesis by (simp add: rotated_def h_rotated_def bind_exn_def agrees_error)
  next
    case a4: (Inr a4)
    show ?thesis
    proof (cases "row0_3 a4")
      case (Inl e)
      with Some a4 show ?thesis
        by (simp add: rotated_def h_rotated_def bind_exn_def agrees_error)
    next
      case (Inr a3)
      have inner: "agrees
          (bind_exn (rotate_tf angle axis) (\<lambda>r.
             bind_exn (dot (deref h1 t1) (OtherArray r)) (\<lambda>t2. translated t2 (Vec a3))))
          (case rotate_tf angle axis of
             Inl e \<Rightarrow> (h1, Inl e)
           | Inr r \<Rightarrow> hbind (h_dot h1 t1 (Other_raw r)) (\<lambda>h2 t2. h_translated h2 t2 (Vec a3)))"
        for h1 t1
      proof (cases "rotate_tf angle axis")
        case (Inl e)
        then show ?thesis by (simp add: bind_exn_def agrees_error)
      next
        case (Inr r)
        have "agrees (bind_exn (dot (deref h1 t1) (OtherArray r)) (\<lambda>t2. translated t2 (Vec a3)))
            (hbind (h_dot h1 t1 (Other_raw r)) (\<lambda>h2 t2. h_translated h2 t2 (Vec a3)))"
          by (rule agrees_hbind [OF h_dot_raw_agrees]) (rule h_translated_agrees)
        with Inr show ?thesis by (simp add: bind_exn_def)
      qed
      have "agrees
          (bind_exn (translated (deref h self) (Vec (map fneg a3))) (\<lambda>t1.
             bind_exn (rotate_tf angle axis) (\<lambda>r.
               bind_exn (dot t1 (OtherArray r)) (\<lambda>t2. translated t2 (Vec a3)))))
          (hbind (h_translated h self (Vec (map fneg a3))) (\<lambda>h1 t1.
             case rotate_tf angle axis of
               Inl e \<Rightarrow> (h1, Inl e)
             | Inr r \<Rightarrow> hbind (h_dot h1 t1 (Other_raw r)) (\<lambda>h2 t2. h_translated h2 t2 (Vec a3))))"
        by (rule agrees_hbind [OF h_translated_agrees]) (rule inner)
      with Some a4 Inr show ?thesis by (simp add: rotated_def h_rotated_def bind_exn_def)
    qed
  qed
qed

lemma run_agrees:
  assumes "wf_heap h" "self < length (objects h)"
  shows "agrees (run_value li h (deref h self) m) (run li h self m)"
  using assms
  by (cases m)
     (simp_all add: h_dot_agrees h_matmul_agrees h_T_agrees h_inv_agrees h_translated_agrees
        h_rotated_agrees h_scaled_agrees)

text \<open>The object that \<open>T\<close> returns shares the buffer of the receiver; no buffer is added.\<close>

lemma h_T_is_a_view:
  assumes "h_T h self = (h', Inr new)"
  shows "buffers h' = buffers h \<and> buf (objects h' ! new) = buf (objects h ! self)"
  using assms by (auto simp: h_T_def Transform_new_def split: sum.splits)

text \<open>
  Claim C4.  A Transform is frozen: the assignment \<open>t.matrix = v\<close> raises the immutability
  error and leaves the heap as it was.  Each of the methods \<open>dot\<close>, \<open>@\<close>, \<open>T\<close>, \<open>inv\<close>,
  \<open>translated\<close>, \<open>rotated\<close> and \<open>scaled\<close> leaves every buffer and every object that was on
  the heap as it was, the receiver and its matrix among them; when it succeeds it returns a
  reference that was not on the heap before, so never the receiver, to an object that holds
  the value the method computes; when it raises, nothing that was on the heap has changed.
\<close>

theorem transform_immutable:
  assumes "wf_heap h" and "self < length (objects h)"
  shows "assign_matrix h self v = (h, Inl (ImmutabilityError ''object is immutable'')) \<and>
         (case run li h self m of
            (h', r) \<Rightarrow>
              take (length (buffers h)) (buffers h') = buffers h \<and>
              take (length (objects h)) (objects h') = objects h \<and>
              deref h' self = deref h self \<and>
              wf_heap h' \<and>
              (case r of
                 Inl e \<Rightarrow> run_value li h (deref h self) m = Inl e
               | Inr new \<Rightarrow>
                   new \<noteq> self \<and> length (objects h) \<le> new \<and> new < length (objects h') \<and>
                   run_value li h (deref h self) m = Inr (deref h' new)))"
proof
  show "assign_matrix h self v = (h, Inl (ImmutabilityError ''object is immutable''))"
    by (simp add: assign_matrix_def Transform_frozen)
next
  obtain h' r where res: "run li h self m = (h', r)" by (cases "run li h self m")
  from run_fresh [OF assms, of li m] res have ext: "heap_extends h h'" and wf: "wf_heap h'"
    and new: "case r of Inl e \<Rightarrow> True | Inr new \<Rightarrow> length (objects h) \<le> new \<and> new < length (objects h')"
    by (simp_all add: fresh_result_def)
  have d: "deref h' self = deref h self"
    by (rule deref_extends [OF ext assms(2) wf_heap_buf [OF assms]])
  from run_agrees [OF assms, of li m] res
  have val: "case r of Inl e \<Rightarrow> run_value li h (deref h self) m = Inl e
      | Inr new \<Rightarrow> run_value li h (deref h self) m = Inr (deref h' new)"
    by (cases r) (simp_all add: agrees_def)
  from new val assms(2) have "case r of
        Inl e \<Rightarrow> run_value li h (deref h self) m = Inl e
      | Inr new \<Rightarrow> new \<noteq> self \<and> length (objects h) \<le> new \<and> new < length (objects h') \<and>
          run_value li h (deref h self) m = Inr (deref h' new)"
    by (cases r) auto
  with ext wf d res
  show "case run li h self m of
            (h', r) \<Rightarrow>
              take (length (buffers h)) (buffers h') = buffers h \<and>
              take (length (objects h)) (objects h') = objects h \<and>
              deref h' self = deref h self \<and>
              wf_heap h' \<and>
              (case r of
                 Inl e \<Rightarrow> run_value li h (deref h self) m = Inl e
               | Inr new \<Rightarrow>
                   new \<noteq> self \<and> length (objects h) \<le> new \<and> new < length (objects h') \<and>
                   run_value li h (deref h self) m = Inr (deref h' new))"
    by (simp add: heap_extends_def)
qed

theorem transform_immutable_witness:
  "wf_heap example_heap \<and> (0::nat) < length (objects example_heap) \<and>
   deref example_heap 0 = \<lparr>matrix = example_A\<rparr> \<and>
   assign_matrix example_heap 0 eye4 =
     (example_heap, Inl (ImmutabilityError ''object is immutable'')) \<and>
   run (\<lambda>_. Inl (LinAlgError ''Singular matrix'')) example_heap 0 Call_T =
     (\<lparr>buffers = [example_A],
       objects = [\<lparr>buf = 0, transposed = False\<rparr>, \<lparr>buf = 0, transposed = True\<rparr>]\<rparr>, Inr 1) \<and>
   run (\<lambda>_. Inl (LinAlgError ''Singular matrix'')) example_heap 0 (Call_dot (Other_ref 0)) =
     (\<lparr>buffers = [example_A,
                   [[Fin 1, Fin 4, Fin 0, Fin 0],
                    [Fin 0, Fin 1, Fin 0, Fin 0],
                    [Fin 0, Fin 0, Fin 1, Fin 0],
                    [Fin 6, Fin 6, Fin 0, Fin 1]]],
       objects = [\<lparr>buf = 0, transposed = False\<rparr>, \<lparr>buf = 1, transposed = False\<rparr>]\<rparr>, Inr 1)"
proof -
  have w: "wf_heap example_heap"
    by (simp add: wf_heap_def example_heap_def example_A_def shape2_def)
  have l: "(0::nat) < length (objects example_heap)" by (simp add: example_heap_def)
  have d: "deref example_heap 0 = \<lparr>matrix = example_A\<rparr>"
    by (simp add: deref_def read_array_def example_heap_def)
  have t: "run (\<lambda>_. Inl (LinAlgError ''Singular matrix'')) example_heap 0 Call_T =
     (\<lparr>buffers = [example_A],
       objects = [\<lparr>buf = 0, transposed = False\<rparr>, \<lparr>buf = 0, transposed = True\<rparr>]\<rparr>, Inr 1)"
    by (simp add: h_T_def Transform_new_def read_array_def example_heap_def example_A_def
        np_T_def column_def upt_0_4 Transform_of_def Transform_init_def of_rows_def)
  have p: "run (\<lambda>_. Inl (LinAlgError ''Singular matrix'')) example_heap 0 (Call_dot (Other_ref 0)) =
     (\<lparr>buffers = [example_A,
                   [[Fin 1, Fin 4, Fin 0, Fin 0],
                    [Fin 0, Fin 1, Fin 0, Fin 0],
                    [Fin 0, Fin 0, Fin 1, Fin 0],
                    [Fin 6, Fin 6, Fin 0, Fin 1]]],
       objects = [\<lparr>buf = 0, transposed = False\<rparr>, \<lparr>buf = 1, transposed = False\<rparr>]\<rparr>, Inr 1)"
    by (simp add: h_dot_def Transform_new_def deref_def read_array_def example_heap_def
        example_A_def np_dot_def shape2_def column_def upt_0_4 Transform_of_def
        Transform_init_def of_rows_def)
  from transform_immutable [OF w l, of eye4 "\<lambda>_. Inl (LinAlgError ''Singular matrix'')" Call_T]
  have "assign_matrix example_heap 0 eye4 =
     (example_heap, Inl (ImmutabilityError ''object is immutable''))" by simp
  with w l d t p show ?thesis by simp
qed

end
